theory Spec2Isabelle
  imports Complex_Main
begin

section \<open>JavaScript primitives used by the sources\<close>

text \<open>
  The sources are TypeScript and JavaScript. A JavaScript \<^verbatim>\<open>number\<close> is modelled as a
  \<^typ>\<open>real\<close>: the arithmetic below is the exact one, without the rounding of IEEE
  doubles and without NaN or the infinities. Array lengths and counters are \<^typ>\<open>nat\<close>.
  A text is a \<^typ>\<open>string\<close> whose characters stand for the code units of an ASCII text.
\<close>

text \<open>\<^verbatim>\<open>Math.round\<close>: the nearest integer, a half rounded up.\<close>

definition jsRound :: "real \<Rightarrow> real" where
  "jsRound x = of_int \<lfloor>x + 1 / 2\<rfloor>"

text \<open>The white space that \<^verbatim>\<open>String.prototype.trim\<close> strips, among the ASCII characters:
  tab, line feed, vertical tab, form feed, carriage return and space.\<close>

definition isWhiteSpace :: "char \<Rightarrow> bool" where
  "isWhiteSpace c \<longleftrightarrow>
     c = CHR 0x09 \<or> c = CHR 0x0A \<or> c = CHR 0x0B \<or> c = CHR 0x0C \<or> c = CHR 0x0D \<or> c = CHR 0x20"

definition trim :: "string \<Rightarrow> string" where
  "trim s = rev (dropWhile isWhiteSpace (rev (dropWhile isWhiteSpace s)))"

text \<open>\<^verbatim>\<open>s.split(sep)\<close> for a separator of one character: the pieces between the
  separators, in order; the result is never empty.\<close>

fun jsSplit :: "char \<Rightarrow> string \<Rightarrow> string list" where
  "jsSplit sep [] = [[]]"
| "jsSplit sep (c # cs) =
     (if c = sep then [] # jsSplit sep cs
      else (case jsSplit sep cs of
              [] \<Rightarrow> [[c]]
            | l # ls \<Rightarrow> (c # l) # ls))"

definition newline :: char where
  "newline = CHR 0x0A"

definition toLowerCase :: "string \<Rightarrow> string" where
  "toLowerCase s =
     map (\<lambda>c. if 65 \<le> (of_char c :: nat) \<and> (of_char c :: nat) \<le> 90
              then char_of ((of_char c :: nat) + 32) else c) s"

text \<open>\<^verbatim>\<open>xs.slice(-n)\<close>: the last \<open>n\<close> elements, all of them when there are fewer.\<close>

definition sliceLast :: "nat \<Rightarrow> 'a list \<Rightarrow> 'a list" where
  "sliceLast n xs = drop (length xs - n) xs"

subsection \<open>Regular expressions\<close>

text \<open>
  The regular expression literals of the sources, each named by a constructor.
  The extension's \<^verbatim>\<open>complexityPatterns\<close> (all with the flag g):
  \<^item> \<open>RE_if\<close>, \<open>RE_for\<close>, \<open>RE_while\<close>, \<open>RE_switch\<close>, \<open>RE_catch\<close>: a word boundary,
    the keyword, optional white space and an opening parenthesis;
  \<^item> \<open>RE_ternary\<close>: a question mark, lazily anything, and a colon.

  The extension's \<^verbatim>\<open>functionPatterns\<close>: \<open>RE_function_js\<close>, \<open>RE_function_ts\<close>,
  \<open>RE_function_py\<close>.

  The backend's \<^verbatim>\<open>complexityPatterns\<close>: \<open>RE_kw_if\<close>, \<open>RE_kw_else\<close>, \<open>RE_kw_for\<close>,
  \<open>RE_kw_while\<close>, \<open>RE_kw_switch\<close>, \<open>RE_kw_catch\<close>, \<open>RE_kw_try\<close>: the keyword between two
  word boundaries; and \<open>RE_long_function\<close>: a function declaration whose body has at
  least 200 characters.
\<close>

datatype regex =
    RE_if | RE_for | RE_while | RE_switch | RE_catch | RE_ternary
  | RE_function_js | RE_function_ts | RE_function_py
  | RE_kw_if | RE_kw_else | RE_kw_for | RE_kw_while | RE_kw_switch | RE_kw_catch | RE_kw_try
  | RE_long_function

text \<open>
  \<^verbatim>\<open>text.match(re)\<close> with a global regular expression is the host's regular expression
  engine: \<open>None\<close> stands for \<^verbatim>\<open>null\<close> (no match), \<open>Some ms\<close> for the array of the
  matched substrings. The functions below take it as the parameter \<open>match\<close>, and the
  theorems hold for every engine.
\<close>

type_synonym matcher = "regex \<Rightarrow> string \<Rightarrow> string list option"

section \<open>The extension: metrics of a document (extension.ts)\<close>

definition complexityPatterns :: "regex list" where
  "complexityPatterns = [RE_if, RE_for, RE_while, RE_switch, RE_catch, RE_ternary]"

text \<open>\<^verbatim>\<open>calculateComplexity\<close>: the counter starts at the base complexity 1, every pattern
  adds the number of its matches, and the result is a tenth of it, at most 10.\<close>

definition calculateComplexity :: "matcher \<Rightarrow> string \<Rightarrow> string \<Rightarrow> real" where
  "calculateComplexity match text extension =
     (let complexity =
            foldl (\<lambda>complexity pattern.
                     case match pattern text of
                       None \<Rightarrow> complexity
                     | Some matches \<Rightarrow> complexity + length matches)
                  (1 :: nat) complexityPatterns
      in min 10 (real complexity / 10))"

text \<open>\<^verbatim>\<open>findDuplicateLines\<close>: one step of the \<^verbatim>\<open>forEach\<close> over the lines, on the pair
  of the \<^verbatim>\<open>lineMap\<close> and the counter \<^verbatim>\<open>duplicates\<close>.\<close>

definition duplicateStep :: "(string \<rightharpoonup> nat) \<times> nat \<Rightarrow> string \<Rightarrow> (string \<rightharpoonup> nat) \<times> nat" where
  "duplicateStep st line =
     (let lineMap = fst st; duplicates = snd st; trimmed = trim line in
      if length trimmed > 10 then
        (let count = (case lineMap trimmed of None \<Rightarrow> 0 | Some c \<Rightarrow> c) in
         (lineMap(trimmed \<mapsto> count + 1),
          if count = 1 then duplicates + 1 else duplicates))
      else (lineMap, duplicates))"

definition findDuplicateLines :: "string list \<Rightarrow> nat" where
  "findDuplicateLines lines = snd (foldl duplicateStep (Map.empty, 0) lines)"

text \<open>\<^verbatim>\<open>functionPatterns\<close> is a plain object with the keys js, ts and py. For an
  extension that names a property inherited from \<^verbatim>\<open>Object.prototype\<close> the lookup
  finds that property instead of a pattern; the match with it has no line break, so
  that the count is 0 then as well.\<close>

definition functionPatterns :: "string \<Rightarrow> regex option" where
  "functionPatterns extension =
     (if extension = ''js'' then Some RE_function_js
      else if extension = ''ts'' then Some RE_function_ts
      else if extension = ''py'' then Some RE_function_py
      else None)"

definition findLongFunctions :: "matcher \<Rightarrow> string \<Rightarrow> string \<Rightarrow> nat" where
  "findLongFunctions match text extension =
     (case functionPatterns extension of
        None \<Rightarrow> 0
      | Some pattern \<Rightarrow>
          (let functions = (case match pattern text of None \<Rightarrow> [] | Some ms \<Rightarrow> ms) in
           length (filter (\<lambda>func. length (jsSplit newline func) > 20) functions)))"

text \<open>
  \<^verbatim>\<open>analyzeCodeQuality\<close> computes the four metrics of the document and then the scores.
  \<open>rawQualityScore\<close> is its local constant \<^verbatim>\<open>qualityScore\<close>; the field of the result
  is \<^verbatim>\<open>Math.round\<close> of it.
\<close>

record FileAnalysis =
  fa_qualityScore :: real
  fa_bugRisk :: real
  fa_maintainability :: real
  fa_performance :: real
  fa_linesOfCode :: nat
  fa_complexity :: real
  fa_issues :: "string list"

definition rawQualityScore :: "real \<Rightarrow> nat \<Rightarrow> nat \<Rightarrow> real" where
  "rawQualityScore complexity duplicateLines longFunctions =
     max 0 (min 100
       (100 - (complexity * 10) - (real duplicateLines * 5) - (real longFunctions * 15)))"

definition scoreMetrics :: "nat \<Rightarrow> real \<Rightarrow> nat \<Rightarrow> nat \<Rightarrow> FileAnalysis" where
  "scoreMetrics linesOfCode complexity duplicateLines longFunctions =
     (let qualityScore = rawQualityScore complexity duplicateLines longFunctions;
          bugRisk = min 100 (complexity * 15 + real duplicateLines * 3 + real longFunctions * 20);
          maintainability = max 1 (min 10 (10 - (complexity * 2)));
          performance = max 1 (min 10 (10 - (real longFunctions * 3)))
      in \<lparr> fa_qualityScore = jsRound qualityScore,
           fa_bugRisk = bugRisk,
           fa_maintainability = maintainability,
           fa_performance = performance,
           fa_linesOfCode = linesOfCode,
           fa_complexity = complexity,
           fa_issues =
             (if duplicateLines > 0 then [''Code duplication detected''] else []) @
             (if longFunctions > 0 then [''Long functions found''] else []) @
             (if complexity > 5 then [''High complexity detected''] else []) \<rparr>)"

text \<open>The document is its text and its file name; the extension is what follows the last
  dot of the file name, in lower case.\<close>

definition analyzeCodeQuality :: "matcher \<Rightarrow> string \<Rightarrow> string \<Rightarrow> FileAnalysis" where
  "analyzeCodeQuality match text fileName =
     (let lines = jsSplit newline text;
          extension = toLowerCase (last (jsSplit (CHR ''.'') fileName));
          linesOfCode = length (filter (\<lambda>line. length (trim line) > 0) lines);
          complexity = calculateComplexity match text extension;
          duplicateLines = findDuplicateLines lines;
          longFunctions = findLongFunctions match text extension
      in scoreMetrics linesOfCode complexity duplicateLines longFunctions)"

section \<open>The extension: CodePatternDetector.ts\<close>

text \<open>\<^verbatim>\<open>findDuplicatePatterns\<close> splits the text into lines and counts as
  \<^verbatim>\<open>findDuplicateLines\<close> does, with its own copy of the loop.\<close>

definition findDuplicatePatterns :: "string \<Rightarrow> nat" where
  "findDuplicatePatterns text =
     (let lines = jsSplit newline text in
      snd (foldl (\<lambda>st line.
                    let lineMap = fst st; duplicates = snd st; trimmed = trim line in
                    if length trimmed > 10 then
                      (let count = (case lineMap trimmed of None \<Rightarrow> 0 | Some c \<Rightarrow> c) in
                       (lineMap(trimmed \<mapsto> count + 1),
                        if count = 1 then duplicates + 1 else duplicates))
                    else (lineMap, duplicates))
                 (Map.empty :: string \<rightharpoonup> nat, 0 :: nat) lines))"

section \<open>The backend: analyzeCode\<close>

text \<open>
  \<^verbatim>\<open>lineGroups\<close> is a plain object used as a dictionary from the trimmed line to the
  list of its line numbers. It is modelled as an association list in insertion order
  (the order of \<^verbatim>\<open>Object.values\<close>). A plain object inherits the properties of
  \<^verbatim>\<open>Object.prototype\<close>: for a trimmed line that is one of their names,
  \<^verbatim>\<open>lineGroups[trimmed]\<close> is already truthy, no array is stored, and the call of
  \<^verbatim>\<open>push\<close> on the inherited value throws a TypeError.
\<close>

datatype jsError = TypeError

definition objectPrototypeKeys :: "string list" where
  "objectPrototypeKeys =
     [''constructor'', ''hasOwnProperty'', ''isPrototypeOf'', ''propertyIsEnumerable'',
      ''toLocaleString'', ''toString'', ''valueOf'', ''__proto__'',
      ''__defineGetter__'', ''__defineSetter__'', ''__lookupGetter__'', ''__lookupSetter__'']"

type_synonym lineGroups = "(string \<times> nat list) list"

definition groupStep :: "lineGroups \<Rightarrow> string \<Rightarrow> nat \<Rightarrow> jsError + lineGroups" where
  "groupStep lineGroups line index =
     (let trimmed = trim line in
      if trimmed \<noteq> [] \<and> length trimmed > 10 then
        (case map_of lineGroups trimmed of
           Some _ \<Rightarrow>
             Inr (map (\<lambda>(k, g). if k = trimmed then (k, g @ [index + 1]) else (k, g)) lineGroups)
         | None \<Rightarrow>
             if trimmed \<in> set objectPrototypeKeys then Inl TypeError
             else Inr (lineGroups @ [(trimmed, [index + 1])]))
      else Inr lineGroups)"

fun collectGroups :: "lineGroups \<Rightarrow> (nat \<times> string) list \<Rightarrow> jsError + lineGroups" where
  "collectGroups lineGroups [] = Inr lineGroups"
| "collectGroups lineGroups ((index, line) # rest) =
     (case groupStep lineGroups line index of
        Inl e \<Rightarrow> Inl e
      | Inr lineGroups' \<Rightarrow> collectGroups lineGroups' rest)"

definition backendComplexityPatterns :: "regex list" where
  "backendComplexityPatterns =
     [RE_kw_if, RE_kw_else, RE_kw_for, RE_kw_while, RE_kw_switch, RE_kw_catch, RE_kw_try]"

text \<open>An issue of the result: its type, its severity and the number that its message
  quotes.\<close>

record Issue =
  issue_type :: string
  severity :: string
  quoted :: nat

record BackendMetrics =
  bm_totalLines :: nat
  bm_nonEmptyLines :: nat
  bm_complexity :: nat
  bm_longFunctions :: nat
  bm_duplicateLines :: nat

record BackendAnalysis =
  ba_qualityScore :: real
  ba_metrics :: BackendMetrics
  ba_issues :: "Issue list"
  ba_suggestions :: "string list"
  ba_grade :: string

definition analyzeCode :: "matcher \<Rightarrow> string \<Rightarrow> jsError + BackendAnalysis" where
  "analyzeCode match code =
     (let lines = jsSplit newline code;
          totalLines = length lines;
          nonEmptyLines = length (filter (\<lambda>line. trim line \<noteq> []) lines);
          complexity =
            foldl (\<lambda>complexity pattern.
                     complexity + (case match pattern code of None \<Rightarrow> 0 | Some ms \<Rightarrow> length ms))
                  (0 :: nat) backendComplexityPatterns;
          longFunctions = (case match RE_long_function code of None \<Rightarrow> 0 | Some ms \<Rightarrow> length ms)
      in case collectGroups [] (enumerate 0 lines) of
           Inl e \<Rightarrow> Inl e
         | Inr lineGroups \<Rightarrow>
             (let duplicateLines =
                    foldl (\<lambda>total grp. total + length grp - 1) (0 :: nat)
                          (filter (\<lambda>grp. length grp > 1) (map snd lineGroups));
                  qualityScore =
                    max 0 (min 100
                      (100 - (real complexity * 8) - (real duplicateLines * 3)
                           - (real longFunctions * 12)))
              in Inr \<lparr> ba_qualityScore = qualityScore,
                       ba_metrics = \<lparr> bm_totalLines = totalLines,
                                      bm_nonEmptyLines = nonEmptyLines,
                                      bm_complexity = complexity,
                                      bm_longFunctions = longFunctions,
                                      bm_duplicateLines = duplicateLines \<rparr>,
                       ba_issues =
                         (if complexity > 10
                          then [\<lparr> issue_type = ''high_complexity'', severity = ''warning'',
                                  quoted = complexity \<rparr>] else []) @
                         (if longFunctions > 0
                          then [\<lparr> issue_type = ''long_function'', severity = ''warning'',
                                  quoted = longFunctions \<rparr>] else []) @
                         (if duplicateLines > 5
                          then [\<lparr> issue_type = ''code_duplication'', severity = ''info'',
                                  quoted = duplicateLines \<rparr>] else []),
                       ba_suggestions =
                         (if complexity > 10
                          then [''Extract complex logic into smaller, focused functions''] else []) @
                         (if longFunctions > 0
                          then [''Break long functions into smaller, single-purpose functions'']
                          else []) @
                         (if duplicateLines > 5
                          then [''Extract duplicate code into reusable functions or constants'']
                          else []),
                       ba_grade =
                         (if qualityScore \<ge> 80 then ''A''
                          else if qualityScore \<ge> 60 then ''B''
                          else if qualityScore \<ge> 40 then ''C'' else ''D'') \<rparr>))"

section \<open>The prediction engine: data\<close>

record QualityPattern =
  timestamp :: real
  qualityScore :: real
  sessionDuration :: real
  linesAnalyzed :: real
  filesModified :: real
  issuesFound :: real
  projectType :: string
  complexity :: real

text \<open>The result of \<^verbatim>\<open>ProjectAnalyzer.analyzeCurrentProject\<close>, which reads the workspace:
  the functions below take it as a parameter.\<close>

record ProjectMetrics =
  fileCount :: real
  totalLines :: real
  pm_complexity :: real
  pm_projectType :: string
  languages :: "string list"
  hasTests :: bool
  hasDependencies :: bool
  gitActivity :: real

text \<open>The local calendar of \<^verbatim>\<open>Date\<close>: the hour (0 to 23) and the day of the week
  (0 to 6, Sunday first) of a time stamp. Every reading of the clock within one call
  (\<^verbatim>\<open>Date.now()\<close>, \<^verbatim>\<open>new Date()\<close>) is the one parameter \<open>now\<close>.\<close>

record Calendar =
  getHours :: "real \<Rightarrow> nat"
  getDay :: "real \<Rightarrow> nat"

section \<open>LinearRegressionModel.ts\<close>

record LinearRegressionModel =
  weights :: "real list"
  bias :: real
  isTrained :: bool

definition newLinearRegressionModel :: LinearRegressionModel where
  "newLinearRegressionModel = \<lparr> weights = [], bias = 0, isTrained = False \<rparr>"

record RiskFactors =
  bugProbability :: real

record PredictionOutput =
  daily :: real
  weekly :: real
  confidence :: real
  riskFactors :: RiskFactors

text \<open>\<^verbatim>\<open>typeMap[projectType] || 0\<close>, for the project types that are no names of
  properties of \<^verbatim>\<open>Object.prototype\<close>.\<close>

definition encodeProjectType :: "string \<Rightarrow> real" where
  "encodeProjectType t =
     (case map_of [(''JavaScript'', 1), (''TypeScript'', 2), (''Python'', 3), (''Java'', 4),
                   (''C++'', 5), (''C#'', 6), (''Go'', 7), (''Rust'', 8), (''Unknown'', 0)] t of
        None \<Rightarrow> 0
      | Some n \<Rightarrow> n)"

definition getTimeOfDay :: "Calendar \<Rightarrow> real \<Rightarrow> real" where
  "getTimeOfDay cal ts = real (getHours cal ts) / 24"

definition getDayOfWeek :: "Calendar \<Rightarrow> real \<Rightarrow> real" where
  "getDayOfWeek cal ts = real (getDay cal ts) / 7"

definition extractFeatures :: "Calendar \<Rightarrow> QualityPattern list \<Rightarrow> real list list" where
  "extractFeatures cal qualityHistory =
     map (\<lambda>quality.
            [sessionDuration quality,
             linesAnalyzed quality,
             filesModified quality,
             issuesFound quality,
             complexity quality,
             encodeProjectType (projectType quality),
             getTimeOfDay cal (timestamp quality),
             getDayOfWeek cal (timestamp quality)])
         qualityHistory"

definition predictValue :: "LinearRegressionModel \<Rightarrow> real list \<Rightarrow> real" where
  "predictValue model features =
     (if length (weights model) = 0 then 75
      else (let prediction =
                  foldl (\<lambda>prediction i. prediction + weights model ! i * features ! i)
                        (bias model) [0 ..< length features]
            in max 0 (min 100 prediction)))"

text \<open>\<^verbatim>\<open>trainLinearRegression\<close>: 100 epochs; in each, every example in turn moves the
  weights and the bias by the learning rate 0.01 times its error.\<close>

definition trainExample ::
  "real list list \<Rightarrow> real list \<Rightarrow> nat \<Rightarrow> LinearRegressionModel \<Rightarrow> nat \<Rightarrow> LinearRegressionModel" where
  "trainExample features targets numFeatures model i =
     (let learningRate = 0.01;
          prediction = predictValue model (features ! i);
          error = targets ! i - prediction;
          model' =
            foldl (\<lambda>m j. m\<lparr>weights := (weights m)[j := weights m ! j
                                              + learningRate * error * features ! i ! j]\<rparr>)
                  model [0 ..< numFeatures]
      in model'\<lparr>bias := bias model' + learningRate * error\<rparr>)"

definition trainLinearRegression ::
  "LinearRegressionModel \<Rightarrow> real list list \<Rightarrow> real list \<Rightarrow> LinearRegressionModel" where
  "trainLinearRegression model features targets =
     (let numFeatures = length (features ! 0);
          epochs = 100;
          start = model\<lparr>weights := replicate numFeatures 0, bias := 0\<rparr>
      in foldl (\<lambda>m epoch.
                  foldl (trainExample features targets numFeatures) m [0 ..< length features])
               start [0 ..< epochs])"

definition lr_train :: "Calendar \<Rightarrow> LinearRegressionModel \<Rightarrow> QualityPattern list \<Rightarrow> LinearRegressionModel" where
  "lr_train cal model qualityHistory =
     (if length qualityHistory < 5 then model
      else (let features = extractFeatures cal qualityHistory;
                targets = map qualityScore qualityHistory
            in (trainLinearRegression model features targets)\<lparr>isTrained := True\<rparr>))"

text \<open>The averages of the source are each written as
  \<^verbatim>\<open>xs.reduce((sum, x) => sum + x.field, 0) / xs.length\<close>.\<close>

definition average :: "('a \<Rightarrow> real) \<Rightarrow> 'a list \<Rightarrow> real" where
  "average f xs = foldl (\<lambda>total x. total + f x) 0 xs / real (length xs)"

definition extractFeaturesFromCurrent ::
  "Calendar \<Rightarrow> real \<Rightarrow> QualityPattern list \<Rightarrow> ProjectMetrics \<Rightarrow> real list" where
  "extractFeaturesFromCurrent cal now recentQuality projectMetrics =
     (if length recentQuality = 0
      then [0, 0, 0, 0,
            (if pm_complexity projectMetrics = 0 then 0.5 else pm_complexity projectMetrics),
            0, 0, 0]
      else (let avgDuration = average sessionDuration recentQuality;
                avgLines = average linesAnalyzed recentQuality;
                avgFiles = average filesModified recentQuality;
                avgIssues = average issuesFound recentQuality;
                avgComplexity = average complexity recentQuality;
                latestProjectType =
                  (if projectType (last recentQuality) = [] then ''Unknown''
                   else projectType (last recentQuality))
            in [avgDuration, avgLines, avgFiles, avgIssues, avgComplexity,
                encodeProjectType latestProjectType,
                getTimeOfDay cal now,
                getDayOfWeek cal now]))"

definition fallbackPrediction :: "QualityPattern list \<Rightarrow> PredictionOutput" where
  "fallbackPrediction recentQuality =
     (if length recentQuality = 0
      then \<lparr> daily = 75, weekly = 75, confidence = 0.3,
             riskFactors = \<lparr> bugProbability = 20 \<rparr> \<rparr>
      else (let avgQuality = average qualityScore recentQuality;
                avgIssues = average issuesFound recentQuality;
                bugProbability = min 100 (avgIssues * 15)
            in \<lparr> daily = jsRound avgQuality, weekly = jsRound avgQuality, confidence = 0.5,
                 riskFactors = \<lparr> bugProbability = bugProbability \<rparr> \<rparr>))"

definition calculatePredictionConfidence :: "nat \<Rightarrow> real" where
  "calculatePredictionConfidence dataPoints =
     (if dataPoints = 0 then 0.3
      else if dataPoints < 10 then 0.5
      else if dataPoints < 50 then 0.7
      else 0.9)"

definition lr_predict ::
  "Calendar \<Rightarrow> real \<Rightarrow> LinearRegressionModel \<Rightarrow> QualityPattern list \<Rightarrow> ProjectMetrics
     \<Rightarrow> PredictionOutput" where
  "lr_predict cal now model recentQuality projectMetrics =
     (if \<not> isTrained model \<or> length recentQuality = 0
      then fallbackPrediction recentQuality
      else (let features = extractFeaturesFromCurrent cal now recentQuality projectMetrics;
                prediction = predictValue model features;
                bugProbability = max 0 (min 100 ((100 - prediction) * 0.8));
                dailyTrend = prediction;
                weeklyTrend = prediction;
                confidence = calculatePredictionConfidence (length recentQuality)
            in \<lparr> daily = max 0 (jsRound dailyTrend),
                 weekly = max 0 (jsRound weeklyTrend),
                 confidence = confidence,
                 riskFactors = \<lparr> bugProbability = bugProbability \<rparr> \<rparr>))"

section \<open>TimeSeriesModel.ts\<close>

datatype Trend = improving | declining | stable

record TimeSeriesModel =
  trendCoefficient :: real
  seasonalFactors :: "real list"
  isInitialized :: bool

definition newTimeSeriesModel :: TimeSeriesModel where
  "newTimeSeriesModel = \<lparr> trendCoefficient = 0, seasonalFactors = [], isInitialized = False \<rparr>"

record TimeSeriesPrediction =
  ts_daily :: real
  ts_weekly :: real
  trend :: Trend
  seasonality :: real
  ts_confidence :: real

text \<open>\<^verbatim>\<open>analyzeTrend\<close>: the four running sums over the history with its indices, then
  the slope of the least-squares line.\<close>

definition trendSums :: "QualityPattern list \<Rightarrow> real \<times> real \<times> real \<times> real" where
  "trendSums qualityHistory =
     foldl (\<lambda>(sumX, sumY, sumXY, sumXX) (index, quality).
              (sumX + real index,
               sumY + qualityScore quality,
               sumXY + real index * qualityScore quality,
               sumXX + real index * real index))
           (0, 0, 0, 0) (enumerate 0 qualityHistory)"

definition analyzeTrend :: "TimeSeriesModel \<Rightarrow> QualityPattern list \<Rightarrow> TimeSeriesModel" where
  "analyzeTrend model qualityHistory =
     (if length qualityHistory < 2 then model\<lparr>trendCoefficient := 0\<rparr>
      else (let n = real (length qualityHistory) in
            case trendSums qualityHistory of
              (sumX, sumY, sumXY, sumXX) \<Rightarrow>
                model\<lparr>trendCoefficient :=
                        (n * sumXY - sumX * sumY) / (n * sumXX - sumX * sumX)\<rparr>))"

text \<open>\<^verbatim>\<open>analyzeSeasonality\<close>: the sum and the count of the scores of every day of the
  week, then their quotient, 75 for a day without a sample. The day of the week indexes
  two arrays of length 7.\<close>

definition analyzeSeasonality ::
  "Calendar \<Rightarrow> TimeSeriesModel \<Rightarrow> QualityPattern list \<Rightarrow> TimeSeriesModel" where
  "analyzeSeasonality cal model qualityHistory =
     (case foldl (\<lambda>(factors, dailyCounts) quality.
                    (let dayOfWeek = getDay cal (timestamp quality) in
                     (factors[dayOfWeek := factors ! dayOfWeek + qualityScore quality],
                      dailyCounts[dayOfWeek := dailyCounts ! dayOfWeek + 1])))
                 (replicate 7 (0 :: real), replicate 7 (0 :: nat)) qualityHistory of
        (factors, dailyCounts) \<Rightarrow>
          model\<lparr>seasonalFactors :=
                  map (\<lambda>(total, index).
                         if dailyCounts ! index > 0 then total / real (dailyCounts ! index) else 75)
                      (zip factors [0 ..< length factors])\<rparr>)"

definition ts_train :: "Calendar \<Rightarrow> TimeSeriesModel \<Rightarrow> QualityPattern list \<Rightarrow> TimeSeriesModel" where
  "ts_train cal model qualityHistory =
     (if length qualityHistory < 7 then model
      else (analyzeSeasonality cal (analyzeTrend model qualityHistory) qualityHistory)
             \<lparr>isInitialized := True\<rparr>)"

definition calculateSeasonality :: "Calendar \<Rightarrow> real \<Rightarrow> TimeSeriesModel \<Rightarrow> real" where
  "calculateSeasonality cal now model =
     (if length (seasonalFactors model) = 0 then 0
      else (let today = getDay cal now;
                avgSeasonal = foldl (\<lambda>total factor. total + factor) 0 (seasonalFactors model) / 7
            in seasonalFactors model ! today - avgSeasonal))"

definition ts_calculateConfidence :: "nat \<Rightarrow> real" where
  "ts_calculateConfidence dataPoints =
     (if dataPoints < 7 then 0.3
      else if dataPoints < 30 then 0.6
      else if dataPoints < 90 then 0.8
      else 0.9)"

definition defaultPrediction :: TimeSeriesPrediction where
  "defaultPrediction =
     \<lparr> ts_daily = 75, ts_weekly = 75, trend = stable, seasonality = 0, ts_confidence = 0.3 \<rparr>"

definition ts_predict ::
  "Calendar \<Rightarrow> real \<Rightarrow> TimeSeriesModel \<Rightarrow> QualityPattern list \<Rightarrow> TimeSeriesPrediction" where
  "ts_predict cal now model qualityHistory =
     (if \<not> isInitialized model \<or> length qualityHistory = 0 then defaultPrediction
      else (let recentQuality = sliceLast 7 qualityHistory;
                avgQuality = average qualityScore recentQuality;
                dailyPrediction = avgQuality + trendCoefficient model;
                weeklyPrediction = avgQuality + (trendCoefficient model * 7);
                trend = (if trendCoefficient model > 2 then improving
                         else if trendCoefficient model < - 2 then declining
                         else stable);
                confidence = ts_calculateConfidence (length qualityHistory)
            in \<lparr> ts_daily = max 0 (min 100 (jsRound dailyPrediction)),
                 ts_weekly = max 0 (min 100 (jsRound weeklyPrediction)),
                 trend = trend,
                 seasonality = calculateSeasonality cal now model,
                 ts_confidence = confidence \<rparr>))"

section \<open>DataStorage.ts\<close>

datatype AnalysisDepth = fast | thorough | deep

record UserSettings =
  qualityThreshold :: real
  notificationThreshold :: real
  enableAutoTracking :: bool
  enablePredictions :: bool
  analysisDepth :: AnalysisDepth
  lastSyncTime :: real

text \<open>A value of the type \<^verbatim>\<open>any\<close> that the store can hold.\<close>

datatype json =
    JNull | JBool bool | JNumber real | JString string
  | JArray "json list" | JObject "(string \<times> json) list"

record ModelData =
  regressionWeights :: "real list"
  regressionBias :: real
  timeSeriesData :: json
  lastTrainingTime :: real
  trainingDataCount :: real

record SessionData =
  sd_id :: string
  sd_startTime :: real
  sd_endTime :: real
  sd_qualityScore :: real
  sd_linesAnalyzed :: real
  sd_filesModified :: "string list"
  sd_projectType :: string
  sd_complexity :: real

record StoredData =
  exp_qualityHistory :: "QualityPattern list"
  exp_userSettings :: UserSettings
  exp_modelData :: ModelData
  exp_sessionData :: "SessionData list"

text \<open>
  The \<^verbatim>\<open>globalState\<close> of the extension context, at the four keys of the storage:
  \<open>None\<close> is a key without a value (\<^verbatim>\<open>get\<close> returns \<^verbatim>\<open>undefined\<close>). The writes
  (\<^verbatim>\<open>update\<close>) are taken to succeed; the source catches and logs a rejected write,
  which leaves the key as it was.
\<close>

record GlobalState =
  key_qualityHistory :: "QualityPattern list option"
  key_userSettings :: "UserSettings option"
  key_modelData :: "ModelData option"
  key_sessionData :: "SessionData list option"

definition freshStore :: GlobalState where
  "freshStore = \<lparr> key_qualityHistory = None, key_userSettings = None,
                    key_modelData = None, key_sessionData = None \<rparr>"

definition MAX_HISTORY_ENTRIES :: nat where
  "MAX_HISTORY_ENTRIES = 1000"

definition MAX_SESSION_ENTRIES :: nat where
  "MAX_SESSION_ENTRIES = 100"

definition saveQualityHistory :: "GlobalState \<Rightarrow> QualityPattern list \<Rightarrow> GlobalState" where
  "saveQualityHistory store qualityHistory =
     (let limitedHistory = sliceLast MAX_HISTORY_ENTRIES qualityHistory
      in store\<lparr>key_qualityHistory := Some limitedHistory\<rparr>)"

definition loadQualityHistory :: "GlobalState \<Rightarrow> QualityPattern list" where
  "loadQualityHistory store =
     (case key_qualityHistory store of None \<Rightarrow> [] | Some history \<Rightarrow> history)"

definition saveUserSettings :: "GlobalState \<Rightarrow> UserSettings \<Rightarrow> GlobalState" where
  "saveUserSettings store settings = store\<lparr>key_userSettings := Some settings\<rparr>"

definition defaultUserSettings :: UserSettings where
  "defaultUserSettings =
     \<lparr> qualityThreshold = 75, notificationThreshold = 50, enableAutoTracking = True,
       enablePredictions = True, analysisDepth = thorough, lastSyncTime = 0 \<rparr>"

text \<open>\<^verbatim>\<open>loadUserSettings\<close> spreads the stored settings over the defaults; stored
  settings have every field, so that each default is overridden.\<close>

definition loadUserSettings :: "GlobalState \<Rightarrow> UserSettings" where
  "loadUserSettings store =
     (case key_userSettings store of
        None \<Rightarrow> defaultUserSettings
      | Some settings \<Rightarrow>
          defaultUserSettings
            \<lparr> qualityThreshold := qualityThreshold settings,
              notificationThreshold := notificationThreshold settings,
              enableAutoTracking := enableAutoTracking settings,
              enablePredictions := enablePredictions settings,
              analysisDepth := analysisDepth settings,
              lastSyncTime := lastSyncTime settings \<rparr>)"

definition saveModelData :: "GlobalState \<Rightarrow> ModelData \<Rightarrow> GlobalState" where
  "saveModelData store modelData = store\<lparr>key_modelData := Some modelData\<rparr>"

text \<open>\<^verbatim>\<open>loadModelData\<close> returns \<^verbatim>\<open>null\<close>, here \<open>None\<close>, when nothing is stored.\<close>

definition loadModelData :: "GlobalState \<Rightarrow> ModelData option" where
  "loadModelData store = key_modelData store"

definition saveSessionData :: "GlobalState \<Rightarrow> SessionData list \<Rightarrow> GlobalState" where
  "saveSessionData store sessionData =
     (let limitedSessions = sliceLast MAX_SESSION_ENTRIES sessionData
      in store\<lparr>key_sessionData := Some limitedSessions\<rparr>)"

definition loadSessionData :: "GlobalState \<Rightarrow> SessionData list" where
  "loadSessionData store =
     (case key_sessionData store of None \<Rightarrow> [] | Some sessions \<Rightarrow> sessions)"

definition clearAllData :: "GlobalState \<Rightarrow> GlobalState" where
  "clearAllData store =
     store\<lparr>key_qualityHistory := None, key_userSettings := None,
           key_modelData := None, key_sessionData := None\<rparr>"

definition defaultModelData :: ModelData where
  "defaultModelData =
     \<lparr> regressionWeights = [], regressionBias = 0, timeSeriesData = JNull,
       lastTrainingTime = 0, trainingDataCount = 0 \<rparr>"

definition exportAllData :: "GlobalState \<Rightarrow> StoredData" where
  "exportAllData store =
     (let qualityHistory = loadQualityHistory store;
          userSettings = loadUserSettings store;
          modelData = loadModelData store;
          sessionData = loadSessionData store
      in \<lparr> exp_qualityHistory = qualityHistory,
           exp_userSettings = userSettings,
           exp_modelData = (case modelData of None \<Rightarrow> defaultModelData | Some m \<Rightarrow> m),
           exp_sessionData = sessionData \<rparr>)"

definition importAllData :: "GlobalState \<Rightarrow> StoredData \<Rightarrow> GlobalState" where
  "importAllData store data =
     (let store1 = saveQualityHistory store (exp_qualityHistory data);
          store2 = saveUserSettings store1 (exp_userSettings data);
          store3 = saveModelData store2 (exp_modelData data)
      in saveSessionData store3 (exp_sessionData data))"

section \<open>AnalysisEngine.ts\<close>

record AnalysisResult =
  overallQuality :: real
  bugRisk :: real
  maintainabilityScore :: real
  performanceScore :: real
  ar_confidence :: real
  recommendations :: "string list"

record AnalysisEngine =
  regressionModel :: LinearRegressionModel
  timeSeriesModel :: TimeSeriesModel
  storage :: GlobalState
  qualityHistory :: "QualityPattern list"

text \<open>The engine as the constructor leaves it, before the stored history is loaded.\<close>

definition newAnalysisEngine :: "GlobalState \<Rightarrow> AnalysisEngine" where
  "newAnalysisEngine store =
     \<lparr> regressionModel = newLinearRegressionModel,
       timeSeriesModel = newTimeSeriesModel,
       storage = store,
       qualityHistory = [] \<rparr>"

definition loadHistoricalData :: "AnalysisEngine \<Rightarrow> AnalysisEngine" where
  "loadHistoricalData engine =
     engine\<lparr>qualityHistory := loadQualityHistory (storage engine)\<rparr>"

definition updateModels :: "Calendar \<Rightarrow> AnalysisEngine \<Rightarrow> AnalysisEngine" where
  "updateModels cal engine =
     (if length (qualityHistory engine) > 10
      then engine\<lparr>regressionModel := lr_train cal (regressionModel engine) (qualityHistory engine),
                  timeSeriesModel := ts_train cal (timeSeriesModel engine) (qualityHistory engine)\<rparr>
      else engine)"

definition recordQuality :: "Calendar \<Rightarrow> AnalysisEngine \<Rightarrow> QualityPattern \<Rightarrow> AnalysisEngine" where
  "recordQuality cal engine pattern =
     (let engine1 = engine\<lparr>qualityHistory := qualityHistory engine @ [pattern]\<rparr>;
          engine2 = (if length (qualityHistory engine1) > 1000
                     then engine1\<lparr>qualityHistory := sliceLast 1000 (qualityHistory engine1)\<rparr>
                     else engine1);
          engine3 = engine2\<lparr>storage := saveQualityHistory (storage engine2) (qualityHistory engine2)\<rparr>
      in updateModels cal engine3)"

definition getRecentQuality :: "real \<Rightarrow> AnalysisEngine \<Rightarrow> QualityPattern list" where
  "getRecentQuality now engine =
     (let dayAgo = now - (24 * 60 * 60 * 1000)
      in filter (\<lambda>pattern. timestamp pattern > dayAgo) (qualityHistory engine))"

definition calculateQualityScore :: "QualityPattern list \<Rightarrow> real" where
  "calculateQualityScore recentQuality =
     (if length recentQuality = 0 then 75
      else (let avgQuality = average qualityScore recentQuality in jsRound avgQuality))"

definition calculateBugRisk :: "RiskFactors \<Rightarrow> real \<Rightarrow> real" where
  "calculateBugRisk factors projectComplexity =
     (let baseRisk = projectComplexity * 30;
          factorRisk = bugProbability factors
      in min 100 (max 0 (baseRisk + factorRisk)))"

definition calculateMaintainability :: "ProjectMetrics \<Rightarrow> QualityPattern list \<Rightarrow> real" where
  "calculateMaintainability projectMetrics recentQuality =
     (let complexityFactor = (1 - pm_complexity projectMetrics) * 10;
          qualityFactor = calculateQualityScore recentQuality / 10
      in jsRound (min 10 (max 1 ((complexityFactor + qualityFactor) / 2))))"

definition calculatePerformance :: "ProjectMetrics \<Rightarrow> QualityPattern list \<Rightarrow> real" where
  "calculatePerformance projectMetrics recentQuality =
     (let baseScore = 8;
          complexityPenalty = pm_complexity projectMetrics * 3
      in jsRound (min 10 (max 1 (baseScore - complexityPenalty))))"

definition calculateConfidence :: "nat \<Rightarrow> real" where
  "calculateConfidence dataPoints =
     (if dataPoints = 0 then 0.5
      else if dataPoints < 10 then 0.6
      else if dataPoints < 50 then 0.8
      else 0.95)"

definition generateQualityRecommendations ::
  "QualityPattern list \<Rightarrow> ProjectMetrics \<Rightarrow> real \<Rightarrow> string list" where
  "generateQualityRecommendations recentQuality projectMetrics risk =
     (if risk > 50
      then [''High bug risk detected - consider refactoring complex functions''] else []) @
     (if pm_complexity projectMetrics > 0.7
      then [''Project complexity is high - break down large components''] else []) @
     (if list_ex (\<lambda>q. issuesFound q > 5) recentQuality
      then [''Multiple issues found - implement stricter code review process''] else []) @
     [''Maintain consistent coding standards'', ''Add comprehensive unit tests'']"

definition generateAnalysis ::
  "Calendar \<Rightarrow> real \<Rightarrow> ProjectMetrics \<Rightarrow> AnalysisEngine \<Rightarrow> AnalysisResult" where
  "generateAnalysis cal now projectMetrics engine =
     (let recentQuality = getRecentQuality now engine;
          overallQuality = calculateQualityScore recentQuality;
          regressionAnalysis =
            lr_predict cal now (regressionModel engine) recentQuality projectMetrics;
          trendAnalysis = ts_predict cal now (timeSeriesModel engine) (qualityHistory engine);
          bugRisk = calculateBugRisk (riskFactors regressionAnalysis) (pm_complexity projectMetrics);
          maintainabilityScore = calculateMaintainability projectMetrics recentQuality;
          performanceScore = calculatePerformance projectMetrics recentQuality;
          confidence = calculateConfidence (length recentQuality);
          recommendations = generateQualityRecommendations recentQuality projectMetrics bugRisk
      in \<lparr> overallQuality = overallQuality,
           bugRisk = bugRisk,
           maintainabilityScore = maintainabilityScore,
           performanceScore = performanceScore,
           ar_confidence = confidence,
           recommendations = recommendations \<rparr>)"

section \<open>ProjectAnalyzer.ts: the default metrics\<close>

definition getDefaultMetrics :: ProjectMetrics where
  "getDefaultMetrics =
     \<lparr> fileCount = 1, totalLines = 100, pm_complexity = 0.5, pm_projectType = ''Unknown'',
       languages = [''Unknown''], hasTests = False, hasDependencies = False,
       gitActivity = 0.5 \<rparr>"

section \<open>Inputs of the scenarios\<close>

text \<open>The number of matches that \<^verbatim>\<open>match\<close> reports, zero for \<^verbatim>\<open>null\<close>.\<close>

definition matchCount :: "matcher \<Rightarrow> regex \<Rightarrow> string \<Rightarrow> nat" where
  "matchCount match pattern text =
     (case match pattern text of None \<Rightarrow> 0 | Some ms \<Rightarrow> length ms)"

text \<open>The complexity as the specification words it: the total number of matches, divided
  by 10 and clamped to the interval from 0 to 10.\<close>

definition complexity_spec :: "matcher \<Rightarrow> string \<Rightarrow> real" where
  "complexity_spec match text =
     max 0 (min 10
       (real (sum_list (map (\<lambda>pattern. matchCount match pattern text) complexityPatterns)) / 10))"

text \<open>The engine's answer on a text in which no pattern occurs: every pattern of the
  sources needs a keyword, a question mark or a function header, so that this is the answer
  on the empty text and on the text that consists of the letter x.\<close>

definition noMatch :: matcher where
  "noMatch pattern text = None"

text \<open>The calendar of UTC on time stamps in milliseconds; 1 January 1970 was a
  Thursday.\<close>

definition utcCalendar :: Calendar where
  "utcCalendar =
     \<lparr> getHours = (\<lambda>ts. nat \<lfloor>ts / 3600000\<rfloor> mod 24),
       getDay = (\<lambda>ts. (nat \<lfloor>ts / 86400000\<rfloor> + 4) mod 7) \<rparr>"

definition samplePattern :: QualityPattern where
  "samplePattern =
     \<lparr> timestamp = 0, qualityScore = 80, sessionDuration = 30, linesAnalyzed = 100,
       filesModified = 1, issuesFound = 0, projectType = ''TypeScript'', complexity = 0.3 \<rparr>"

text \<open>Twelve samples, one a day from the time \<open>t0\<close>, whose scores rise linearly from 60
  to 90; the other fields are those of \<open>proto\<close>.\<close>

definition syntheticHistory :: "real \<Rightarrow> QualityPattern \<Rightarrow> QualityPattern list" where
  "syntheticHistory t0 proto =
     map (\<lambda>i. proto\<lparr>timestamp := t0 + real i * 86400000,
                     qualityScore := 60 + 30 * real i / 11\<rparr>)
         [0 ..< 12]"

text \<open>A store with one sample, settings and model data.\<close>

definition sampleStore :: GlobalState where
  "sampleStore =
     \<lparr> key_qualityHistory = Some [samplePattern],
       key_userSettings = Some (defaultUserSettings\<lparr>qualityThreshold := 80\<rparr>),
       key_modelData = Some (defaultModelData\<lparr>regressionWeights := [1, 2], regressionBias := 3\<rparr>),
       key_sessionData = Some [] \<rparr>"

section \<open>The lines that the duplicate counts look at\<close>

text \<open>The trimmed lines of more than 10 characters, in order.\<close>

definition longTrimmed :: "string list \<Rightarrow> string list" where
  "longTrimmed lines = filter (\<lambda>t. 10 < length t) (map trim lines)"

text \<open>The invariant of the backend's \<^verbatim>\<open>lineGroups\<close> on the trimmed long lines \<open>ts\<close> read
  so far: one group for every distinct line, which holds as many line numbers as the line
  has occurrences.\<close>

definition groupsOf :: "lineGroups \<Rightarrow> string list \<Rightarrow> bool" where
  "groupsOf groups ts \<longleftrightarrow>
     distinct (map fst groups) \<and> set (map fst groups) = set ts
     \<and> list_all (\<lambda>(k, g). length g = count_list ts k) groups"

section \<open>Properties of the metrics and of the score\<close>

subsection \<open>Rounding and the complexity\<close>

lemma jsRound_of_int: "jsRound (of_int k) = of_int k"
  by (simp add: jsRound_def)

lemma jsRound_range: "0 \<le> x \<Longrightarrow> x \<le> 100 \<Longrightarrow> 0 \<le> jsRound x \<and> jsRound x \<le> 100"
  unfolding jsRound_def by (simp add: le_floor_iff floor_le_iff)

lemma complexity_fold:
  "foldl (\<lambda>complexity pattern. case match pattern text of None \<Rightarrow> complexity
                                 | Some matches \<Rightarrow> complexity + length matches) n ps
   = n + sum_list (map (\<lambda>p. matchCount match p text) ps)"
  by (induction ps arbitrary: n) (auto simp: matchCount_def split: option.splits)

lemma calculateComplexity_eq:
  "calculateComplexity match text ext =
     min 10 (real (1 + sum_list (map (\<lambda>p. matchCount match p text) complexityPatterns)) / 10)"
  unfolding calculateComplexity_def Let_def complexity_fold by simp

lemma calculateComplexity_tenths: "calculateComplexity match text ext * 10 \<in> \<int>"
proof -
  define n where "n = 1 + sum_list (map (\<lambda>p. matchCount match p text) complexityPatterns)"
  have "calculateComplexity match text ext * 10 = real (min 100 n)"
    unfolding calculateComplexity_eq n_def [symmetric] by (simp add: min_def)
  then show ?thesis by simp
qed

lemma calculateComplexity_range:
  "0 < calculateComplexity match text ext \<and> calculateComplexity match text ext \<le> 10"
  unfolding calculateComplexity_eq by (simp add: min_def)

lemma rawQualityScore_range: "0 \<le> rawQualityScore c d l \<and> rawQualityScore c d l \<le> 100"
  by (simp add: rawQualityScore_def)

lemma rawQualityScore_int:
  assumes "c * 10 \<in> \<int>"
  shows "jsRound (rawQualityScore c d l) = rawQualityScore c d l"
proof -
  from assms obtain k :: int where k: "c * 10 = of_int k" by (auto elim: Ints_cases)
  have "rawQualityScore c d l = of_int (max 0 (min 100 (100 - k - int d * 5 - int l * 15)))"
    unfolding rawQualityScore_def k by (simp add: max_def min_def)
  then show ?thesis by (simp only: jsRound_of_int)
qed

lemma scoreMetrics_quality:
  "fa_qualityScore (scoreMetrics n c d l) = jsRound (rawQualityScore c d l)"
  by (simp add: scoreMetrics_def Let_def)

text \<open>On every document the returned score is the unrounded one: the complexity is a
  whole number of tenths, so that the value under \<^verbatim>\<open>Math.round\<close> is an integer.\<close>

lemma analyzeCodeQuality_score:
  "fa_qualityScore (analyzeCodeQuality match text fileName) =
     rawQualityScore
       (calculateComplexity match text (toLowerCase (last (jsSplit (CHR ''.'') fileName))))
       (findDuplicateLines (jsSplit newline text))
       (findLongFunctions match text (toLowerCase (last (jsSplit (CHR ''.'') fileName))))"
  by (simp add: analyzeCodeQuality_def Let_def scoreMetrics_quality rawQualityScore_int
      calculateComplexity_tenths)

text \<open>
  Claim C1. For every metric bundle (in particular with a complexity between 0 and 10),
  the quality score \<open>q\<close> that \<^verbatim>\<open>analyzeCodeQuality\<close> computes satisfies
  \<open>q + (complexity * 10 + duplicateLines * 5 + longFunctions * 15) = 100\<close> whenever the
  unclamped value lies between 0 and 100, and \<open>q\<close> always lies between 0 and 100. This
  holds of the local constant \<^verbatim>\<open>qualityScore\<close>; the returned field is its rounding,
  which lies between 0 and 100 too and is the same number whenever ten times the
  complexity is an integer, as it is for every complexity that \<^verbatim>\<open>calculateComplexity\<close>
  returns: on every document the returned score is the unrounded score of the
  document's metrics.
\<close>

theorem quality_score_identity_and_range:
  "(0 \<le> c \<and> c \<le> 10
      \<and> 0 \<le> 100 - c * 10 - real d * 5 - real l * 15
      \<and> 100 - c * 10 - real d * 5 - real l * 15 \<le> 100
      \<longrightarrow> rawQualityScore c d l + (c * 10 + real d * 5 + real l * 15) = 100)
   \<and> 0 \<le> rawQualityScore c d l \<and> rawQualityScore c d l \<le> 100
   \<and> 0 \<le> fa_qualityScore (scoreMetrics n c d l)
   \<and> fa_qualityScore (scoreMetrics n c d l) \<le> 100
   \<and> (c * 10 \<in> \<int> \<longrightarrow> fa_qualityScore (scoreMetrics n c d l) = rawQualityScore c d l)
   \<and> calculateComplexity match text ext * 10 \<in> \<int>
   \<and> 0 \<le> calculateComplexity match text ext \<and> calculateComplexity match text ext \<le> 10
   \<and> fa_qualityScore (analyzeCodeQuality match text fileName) =
       rawQualityScore
         (calculateComplexity match text (toLowerCase (last (jsSplit (CHR ''.'') fileName))))
         (findDuplicateLines (jsSplit newline text))
         (findLongFunctions match text (toLowerCase (last (jsSplit (CHR ''.'') fileName))))"
proof -
  have 1: "0 \<le> 100 - c * 10 - real d * 5 - real l * 15
      \<and> 100 - c * 10 - real d * 5 - real l * 15 \<le> 100
      \<longrightarrow> rawQualityScore c d l + (c * 10 + real d * 5 + real l * 15) = 100"
    by (simp add: rawQualityScore_def)
  have 2: "0 \<le> jsRound (rawQualityScore c d l) \<and> jsRound (rawQualityScore c d l) \<le> 100"
    using rawQualityScore_range [of c d l] by (simp add: jsRound_range)
  have 3: "0 \<le> calculateComplexity match text ext"
    using calculateComplexity_range [of match "text" ext] by simp
  have 4: "calculateComplexity match text ext \<le> 10"
    using calculateComplexity_range [of match "text" ext] by simp
  note 5 = analyzeCodeQuality_score [of match "text" fileName]
  show ?thesis
    using 1 2 3 4 5 rawQualityScore_range [of c d l] rawQualityScore_int [of c d l]
      calculateComplexity_tenths [of match "text" ext]
    by (simp add: scoreMetrics_quality)
qed

theorem quality_score_identity_and_range_witness:
  "rawQualityScore (1 / 10) 1 0 + (1 / 10 * 10 + real (1 :: nat) * 5 + real (0 :: nat) * 15) = 100
   \<and> fa_qualityScore (scoreMetrics 3 (1 / 10) 1 0) = 94"
proof -
  have "(1 / 10 :: real) * 10 \<in> \<int>" by simp
  moreover have "rawQualityScore (1 / 10) 1 0 = 94" by (simp add: rawQualityScore_def)
  ultimately show ?thesis
    using quality_score_identity_and_range [of "1 / 10" 1 0 3 noMatch "[]" "[]" "[]"] by simp
qed

subsection \<open>The complexity of a text\<close>

text \<open>
  Claim C4, as amended. For every text the complexity is the base complexity 1 plus the
  total number of matches of the six patterns, divided by 10 and at most 10; for a text
  without a match it is 0.1, not 0.
\<close>

theorem calculateComplexity_base_one:
  "calculateComplexity match text ext =
     min 10 (real (1 + sum_list (map (\<lambda>p. matchCount match p text) complexityPatterns)) / 10)
   \<and> (sum_list (map (\<lambda>p. matchCount match p text) complexityPatterns) = 0
        \<longrightarrow> calculateComplexity match text ext = 1 / 10)"
proof (intro conjI impI)
  show "calculateComplexity match text ext =
     min 10 (real (1 + sum_list (map (\<lambda>p. matchCount match p text) complexityPatterns)) / 10)"
    by (rule calculateComplexity_eq)
next
  assume "sum_list (map (\<lambda>p. matchCount match p text) complexityPatterns) = 0"
  then show "calculateComplexity match text ext = 1 / 10"
    by (simp only: calculateComplexity_eq) simp
qed

theorem calculateComplexity_base_one_witness:
  "calculateComplexity noMatch [] ''ts'' = 1 / 10"
proof -
  have "sum_list (map (\<lambda>p. matchCount noMatch p []) complexityPatterns) = 0"
    by (simp add: matchCount_def noMatch_def)
  then show ?thesis
    using calculateComplexity_base_one [of noMatch "[]" "''ts''"] by simp
qed

text \<open>The claim as the specification states it fails on the empty text, which has no
  match: the specified complexity is 0, the computed one is 0.1.\<close>

theorem calculateComplexity_counterexample:
  "sum_list (map (\<lambda>p. matchCount noMatch p []) complexityPatterns) = 0
   \<and> complexity_spec noMatch [] = 0
   \<and> calculateComplexity noMatch [] ''ts'' = 1 / 10
   \<and> calculateComplexity noMatch [] ''ts'' \<noteq> complexity_spec noMatch []"
  by (simp add: calculateComplexity_def complexity_spec_def complexityPatterns_def
      matchCount_def noMatch_def)

subsection \<open>Duplicate lines\<close>

lemma duplicateStep_fold_map:
  "fst (foldl duplicateStep (Map.empty, 0) lines) t =
     (if 10 < length t \<and> 0 < count_list (map trim lines) t
      then Some (count_list (map trim lines) t) else None)"
proof (induction lines rule: rev_induct)
  case Nil
  show ?case by simp
next
  case (snoc x xs)
  show ?case
    using snoc.IH by (auto simp: duplicateStep_def Let_def split: option.splits)
qed

lemma findDuplicateLines_snoc:
  "findDuplicateLines (lines @ [x]) =
     findDuplicateLines lines +
       (if 10 < length (trim x) \<and> count_list (map trim lines) (trim x) = 1 then 1 else 0)"
proof -
  have m: "fst (foldl duplicateStep (Map.empty, 0) lines) (trim x) =
     (if 10 < length (trim x) \<and> 0 < count_list (map trim lines) (trim x)
      then Some (count_list (map trim lines) (trim x)) else None)"
    by (rule duplicateStep_fold_map)
  show ?thesis
    unfolding findDuplicateLines_def foldl_append
    by (simp add: duplicateStep_def [of "foldl duplicateStep (Map.empty, 0) lines" x] Let_def m)
qed

lemma findDuplicateLines_Nil: "findDuplicateLines [] = 0"
  by (simp add: findDuplicateLines_def)

lemma findDuplicateLines_three:
  assumes "10 < length (trim x)"
  shows "findDuplicateLines [x, x, x] = 1"
proof -
  have 1: "findDuplicateLines [x] = 0"
    using findDuplicateLines_snoc [of "[]" x] by (simp add: findDuplicateLines_Nil)
  have 2: "findDuplicateLines [x, x] = 1"
    using findDuplicateLines_snoc [of "[x]" x] assms by (simp add: 1)
  show ?thesis
    using findDuplicateLines_snoc [of "[x, x]" x] by (simp add: 2)
qed

lemma findDuplicateLines_ignore_short:
  "findDuplicateLines (filter (\<lambda>l. 10 < length (trim l)) lines) = findDuplicateLines lines"
proof (induction lines rule: rev_induct)
  case Nil
  show ?case by simp
next
  case (snoc x xs)
  have c: "count_list (map trim (filter (\<lambda>l. 10 < length (trim l)) xs)) (trim x)
         = (if 10 < length (trim x) then count_list (map trim xs) (trim x) else 0)"
    by (induction xs) auto
  show ?case
  proof (cases "10 < length (trim x)")
    case True
    then show ?thesis
      using snoc.IH c by (simp add: findDuplicateLines_snoc)
  next
    case False
    then show ?thesis
      using snoc.IH by (simp add: findDuplicateLines_snoc)
  qed
qed

lemma findDuplicateLines_card:
  "findDuplicateLines lines =
     card {t. 10 < length t \<and> 2 \<le> count_list (map trim lines) t}"
proof (induction lines rule: rev_induct)
  case Nil
  show ?case by (simp add: findDuplicateLines_Nil)
next
  case (snoc x xs)
  let ?S = "\<lambda>ls. {t. 10 < length t \<and> 2 \<le> count_list (map trim ls) t}"
  have fin: "finite (?S xs)"
  proof (rule finite_subset)
    show "?S xs \<subseteq> set (map trim xs)"
    proof
      fix t assume "t \<in> ?S xs"
      then have "count_list (map trim xs) t \<noteq> 0" by simp
      then show "t \<in> set (map trim xs)" by (simp only: count_list_0_iff) simp
    qed
  qed simp
  show ?case
  proof (cases "10 < length (trim x) \<and> count_list (map trim xs) (trim x) = 1")
    case True
    then have "?S (xs @ [x]) = insert (trim x) (?S xs)" by auto
    moreover have "trim x \<notin> ?S xs" using True by simp
    ultimately show ?thesis
      using True fin snoc.IH by (simp add: findDuplicateLines_snoc)
  next
    case False
    then have "?S (xs @ [x]) = ?S xs" by auto
    then show ?thesis
      using False snoc.IH by (simp add: findDuplicateLines_snoc)
  qed
qed

lemma findDuplicatePatterns_eq:
  "findDuplicatePatterns text = findDuplicateLines (jsSplit newline text)"
proof -
  have "(\<lambda>st line.
           let lineMap = fst st; duplicates = snd st; trimmed = trim line in
           if length trimmed > 10 then
             (let count = (case lineMap trimmed of None \<Rightarrow> 0 | Some c \<Rightarrow> c) in
              (lineMap(trimmed \<mapsto> count + 1),
               if count = 1 then duplicates + 1 else duplicates))
           else (lineMap, duplicates)) = duplicateStep"
    by (intro ext) (simp add: duplicateStep_def)
  then show ?thesis
    by (simp add: findDuplicatePatterns_def findDuplicateLines_def Let_def)
qed

lemma jsSplit_no_sep: "sep \<notin> set x \<Longrightarrow> jsSplit sep x = [x]"
  by (induction x) auto

lemma jsSplit_append: "sep \<notin> set x \<Longrightarrow> jsSplit sep (x @ sep # y) = x # jsSplit sep y"
  by (induction x) auto


text \<open>
  Claim C3. Three identical lines whose trimmed text is longer than 10 characters give the
  duplicate count 1, by \<^verbatim>\<open>findDuplicateLines\<close> and by \<^verbatim>\<open>findDuplicatePatterns\<close> alike:
  a further line adds one to the count exactly when its trimmed text is longer than 10
  characters and has occurred exactly once before (its running count goes from 1 to 2),
  and the lines whose trimmed text has at most 10 characters are ignored.
\<close>

theorem findDuplicateLines_first_repeat_only:
  "(10 < length (trim x) \<longrightarrow> findDuplicateLines [x, x, x] = 1)
   \<and> (10 < length (trim x) \<and> newline \<notin> set x
        \<longrightarrow> findDuplicatePatterns (x @ [newline] @ x @ [newline] @ x) = 1)
   \<and> findDuplicateLines (lines @ [l]) =
       findDuplicateLines lines +
         (if 10 < length (trim l) \<and> count_list (map trim lines) (trim l) = 1 then 1 else 0)
   \<and> findDuplicateLines (filter (\<lambda>l. 10 < length (trim l)) lines) = findDuplicateLines lines
   \<and> findDuplicatePatterns text = findDuplicateLines (jsSplit newline text)"
proof (intro conjI impI)
  assume "10 < length (trim x)"
  then show "findDuplicateLines [x, x, x] = 1" by (rule findDuplicateLines_three)
next
  assume a: "10 < length (trim x) \<and> newline \<notin> set x"
  then have "jsSplit newline (x @ [newline] @ x @ [newline] @ x) = [x, x, x]"
    by (simp add: jsSplit_append jsSplit_no_sep)
  then show "findDuplicatePatterns (x @ [newline] @ x @ [newline] @ x) = 1"
    using a by (simp only: findDuplicatePatterns_eq findDuplicateLines_three)
next
  show "findDuplicateLines (lines @ [l]) =
       findDuplicateLines lines +
         (if 10 < length (trim l) \<and> count_list (map trim lines) (trim l) = 1 then 1 else 0)"
    by (rule findDuplicateLines_snoc)
next
  show "findDuplicateLines (filter (\<lambda>l. 10 < length (trim l)) lines) = findDuplicateLines lines"
    by (rule findDuplicateLines_ignore_short)
next
  show "findDuplicatePatterns text = findDuplicateLines (jsSplit newline text)"
    by (rule findDuplicatePatterns_eq)
qed

theorem findDuplicateLines_first_repeat_only_witness:
  "findDuplicateLines [''  const total = 0;'', ''  const total = 0;'', ''  const total = 0;''] = 1
   \<and> findDuplicatePatterns
        (''  const total = 0;'' @ [newline] @ ''  const total = 0;'' @ [newline]
           @ ''  const total = 0;'') = 1"
proof -
  have "10 < length (trim ''  const total = 0;'')"
    by (simp add: trim_def isWhiteSpace_def)
  moreover have "newline \<notin> set ''  const total = 0;''"
    by (simp add: newline_def)
  ultimately show ?thesis
    using findDuplicateLines_first_repeat_only
      [of "''  const total = 0;''" "[]" "[]" "[]"]
    by blast
qed

section \<open>Properties of the quality history\<close>

lemma sliceLast_length: "length (sliceLast n xs) = min n (length xs)"
  by (simp add: sliceLast_def)

lemma sliceLast_id: "length xs \<le> n \<Longrightarrow> sliceLast n xs = xs"
  by (simp add: sliceLast_def)

lemma sliceLast_snoc: "sliceLast n (sliceLast n xs @ [x]) = sliceLast n (xs @ [x])"
proof (cases "length xs \<le> n")
  case True
  then show ?thesis by (simp add: sliceLast_def)
next
  case False
  then have "Suc (length xs - n) = Suc (length xs) - n" by arith
  with False show ?thesis by (simp add: sliceLast_def)
qed


lemma updateModels_history: "qualityHistory (updateModels cal engine) = qualityHistory engine"
  by (simp add: updateModels_def)

lemma updateModels_storage: "storage (updateModels cal engine) = storage engine"
  by (simp add: updateModels_def)

lemma recordQuality_history:
  "qualityHistory (recordQuality cal engine pattern) =
     sliceLast 1000 (qualityHistory engine @ [pattern])"
  by (simp add: recordQuality_def Let_def updateModels_history sliceLast_id)

lemma recordQuality_stored:
  "key_qualityHistory (storage (recordQuality cal engine pattern)) =
     Some (sliceLast 1000 (qualityHistory engine @ [pattern]))"
  by (simp add: recordQuality_def Let_def updateModels_storage saveQualityHistory_def
      MAX_HISTORY_ENTRIES_def sliceLast_id sliceLast_def)

lemma recordQuality_fold_history:
  "qualityHistory (foldl (recordQuality cal) engine ps) =
     (if ps = [] then qualityHistory engine else sliceLast 1000 (qualityHistory engine @ ps))"
proof (induction ps rule: rev_induct)
  case Nil
  show ?case by simp
next
  case (snoc p ps)
  show ?case
  proof (cases "ps = []")
    case True
    then show ?thesis by (simp add: recordQuality_history)
  next
    case False
    then show ?thesis
      using snoc.IH by (simp add: recordQuality_history sliceLast_snoc)
  qed
qed

lemma sliceLast_1001: "length ps = Suc n \<Longrightarrow> sliceLast n ps = tl ps"
  by (cases ps) (simp_all add: sliceLast_def)

text \<open>
  Claim C2. After any number of calls of \<^verbatim>\<open>recordQuality\<close> the history has at most 1000
  entries: after at least one call from any state, and after any number of calls from a
  state that has at most 1000 entries, as the engine has when it is created. Eviction is
  oldest first: the history of an engine created empty is the last 1000 of the recorded
  entries; after entry 1001 it is the recorded sequence without its first entry, so that
  entry 2 is the oldest present and entry 1 is absent.
\<close>

theorem recordQuality_history_bounded:
  "(ps \<noteq> [] \<longrightarrow> length (qualityHistory (foldl (recordQuality cal) engine ps)) \<le> 1000)
   \<and> (length (qualityHistory engine) \<le> 1000 \<longrightarrow>
        length (qualityHistory (foldl (recordQuality cal) engine ps)) \<le> 1000)
   \<and> qualityHistory (foldl (recordQuality cal) (newAnalysisEngine store) ps) = sliceLast 1000 ps
   \<and> (length ps = 1001 \<longrightarrow>
        qualityHistory (foldl (recordQuality cal) (newAnalysisEngine store) ps) = tl ps
        \<and> hd (qualityHistory (foldl (recordQuality cal) (newAnalysisEngine store) ps)) = ps ! 1
        \<and> (distinct ps \<longrightarrow>
             ps ! 0 \<notin> set (qualityHistory (foldl (recordQuality cal) (newAnalysisEngine store) ps))))"
proof -
  have a: "ps \<noteq> [] \<longrightarrow> length (qualityHistory (foldl (recordQuality cal) engine ps)) \<le> 1000"
    by (simp add: recordQuality_fold_history sliceLast_length)
  have b: "length (qualityHistory engine) \<le> 1000 \<longrightarrow>
        length (qualityHistory (foldl (recordQuality cal) engine ps)) \<le> 1000"
    by (simp add: recordQuality_fold_history sliceLast_length)
  have c: "qualityHistory (foldl (recordQuality cal) (newAnalysisEngine store) ps) = sliceLast 1000 ps"
    by (simp add: recordQuality_fold_history newAnalysisEngine_def sliceLast_def)
  have d: "length ps = 1001 \<longrightarrow> sliceLast 1000 ps = tl ps \<and> hd (tl ps) = ps ! 1
             \<and> (distinct ps \<longrightarrow> ps ! 0 \<notin> set (tl ps))"
  proof
    assume l: "length ps = 1001"
    then obtain p qs where ps: "ps = p # qs" by (cases ps) auto
    with l obtain q rs where qs: "qs = q # rs" by (cases qs) auto
    have "sliceLast 1000 ps = tl ps" using l by (simp add: sliceLast_1001)
    then show "sliceLast 1000 ps = tl ps \<and> hd (tl ps) = ps ! 1
             \<and> (distinct ps \<longrightarrow> ps ! 0 \<notin> set (tl ps))"
      by (simp add: ps qs)
  qed
  show ?thesis using a b c d by simp
qed

theorem recordQuality_history_bounded_witness:
  "length (qualityHistory (foldl (recordQuality utcCalendar) (newAnalysisEngine freshStore)
             (map (\<lambda>i. samplePattern\<lparr>timestamp := real i\<rparr>) [0 ..< 1001]))) \<le> 1000
   \<and> hd (qualityHistory (foldl (recordQuality utcCalendar) (newAnalysisEngine freshStore)
             (map (\<lambda>i. samplePattern\<lparr>timestamp := real i\<rparr>) [0 ..< 1001])))
       = samplePattern\<lparr>timestamp := 1\<rparr>"
proof -
  let ?ps = "map (\<lambda>i. samplePattern\<lparr>timestamp := real i\<rparr>) [0 ..< 1001]"
  have l: "length ?ps = 1001" by simp
  have n: "?ps \<noteq> []" using l by (metis length_0_conv zero_neq_numeral)
  have e: "?ps ! 1 = samplePattern\<lparr>timestamp := 1\<rparr>" by (simp del: upt_Suc)
  note t = recordQuality_history_bounded
    [of ?ps utcCalendar "newAnalysisEngine freshStore" freshStore]
  from t n have 1: "length (qualityHistory (foldl (recordQuality utcCalendar)
      (newAnalysisEngine freshStore) ?ps)) \<le> 1000"
    by blast
  from t l have 2: "hd (qualityHistory (foldl (recordQuality utcCalendar)
      (newAnalysisEngine freshStore) ?ps)) = ?ps ! 1"
    by blast
  show ?thesis
    by (simp only: 1 2 e)
qed

section \<open>Properties of the regression model\<close>

lemma foldl_add_sum_list:
  "foldl (\<lambda>total x. total + f x) a xs = a + sum_list (map f xs)" for a :: real
  by (induction xs arbitrary: a) simp_all

lemma average_sum_list: "average f xs = sum_list (map f xs) / real (length xs)"
  by (simp add: average_def foldl_add_sum_list)

lemma lr_train_short: "length history < 5 \<Longrightarrow> lr_train cal model history = model"
  by (simp add: lr_train_def)

lemma lr_predict_untrained:
  "\<not> isTrained model \<Longrightarrow> lr_predict cal now model recent pm = fallbackPrediction recent"
  by (simp add: lr_predict_def)

lemma lr_predict_no_recent:
  "lr_predict cal now model [] pm = fallbackPrediction []"
  by (simp add: lr_predict_def)

lemma fallbackPrediction_Nil:
  "fallbackPrediction [] =
     \<lparr> daily = 75, weekly = 75, confidence = 0.3, riskFactors = \<lparr> bugProbability = 20 \<rparr> \<rparr>"
  by (simp add: fallbackPrediction_def)

lemma fallbackPrediction_average:
  "recent \<noteq> [] \<Longrightarrow> fallbackPrediction recent =
     \<lparr> daily = jsRound (sum_list (map qualityScore recent) / real (length recent)),
       weekly = jsRound (sum_list (map qualityScore recent) / real (length recent)),
       confidence = 0.5,
       riskFactors = \<lparr> bugProbability =
         min 100 (sum_list (map issuesFound recent) / real (length recent) * 15) \<rparr> \<rparr>"
  by (simp add: fallbackPrediction_def Let_def average_sum_list)

text \<open>
  Claim C5, as amended. For every history of fewer than 5 samples, \<^verbatim>\<open>train\<close> returns
  without a change, so that a model that was not trained is still not trained, and a
  subsequent \<^verbatim>\<open>predict\<close> takes the fallback path: quality 75 with bug probability 20 and
  confidence 0.3 when there is no recent sample, and otherwise the rounded average score
  of the recent samples, with 15 times their average number of issues (at most 100) as
  bug probability and confidence 0.5.
\<close>

theorem lr_train_short_history_untrained:
  "length history < 5 \<and> \<not> isTrained model \<longrightarrow>
     lr_train cal model history = model
     \<and> \<not> isTrained (lr_train cal model history)
     \<and> lr_predict cal now (lr_train cal model history) [] pm =
         \<lparr> daily = 75, weekly = 75, confidence = 0.3,
           riskFactors = \<lparr> bugProbability = 20 \<rparr> \<rparr>
     \<and> (recent \<noteq> [] \<longrightarrow>
          lr_predict cal now (lr_train cal model history) recent pm =
            \<lparr> daily = jsRound (sum_list (map qualityScore recent) / real (length recent)),
              weekly = jsRound (sum_list (map qualityScore recent) / real (length recent)),
              confidence = 0.5,
              riskFactors = \<lparr> bugProbability =
                min 100 (sum_list (map issuesFound recent) / real (length recent) * 15) \<rparr> \<rparr>)"
proof (intro impI)
  assume a: "length history < 5 \<and> \<not> isTrained model"
  then have t: "lr_train cal model history = model" by (simp add: lr_train_short)
  show "lr_train cal model history = model
     \<and> \<not> isTrained (lr_train cal model history)
     \<and> lr_predict cal now (lr_train cal model history) [] pm =
         \<lparr> daily = 75, weekly = 75, confidence = 0.3,
           riskFactors = \<lparr> bugProbability = 20 \<rparr> \<rparr>
     \<and> (recent \<noteq> [] \<longrightarrow>
          lr_predict cal now (lr_train cal model history) recent pm =
            \<lparr> daily = jsRound (sum_list (map qualityScore recent) / real (length recent)),
              weekly = jsRound (sum_list (map qualityScore recent) / real (length recent)),
              confidence = 0.5,
              riskFactors = \<lparr> bugProbability =
                min 100 (sum_list (map issuesFound recent) / real (length recent) * 15) \<rparr> \<rparr>)"
    unfolding t using a
    by (simp add: lr_predict_no_recent fallbackPrediction_Nil lr_predict_untrained
        fallbackPrediction_average)
qed

theorem lr_train_short_history_untrained_witness:
  "lr_train utcCalendar newLinearRegressionModel (replicate 4 samplePattern)
     = newLinearRegressionModel
   \<and> lr_predict utcCalendar 0
        (lr_train utcCalendar newLinearRegressionModel (replicate 4 samplePattern)) []
        getDefaultMetrics =
       \<lparr> daily = 75, weekly = 75, confidence = 0.3, riskFactors = \<lparr> bugProbability = 20 \<rparr> \<rparr>
   \<and> lr_predict utcCalendar 0
        (lr_train utcCalendar newLinearRegressionModel (replicate 4 samplePattern))
        [samplePattern] getDefaultMetrics =
       \<lparr> daily = 80, weekly = 80, confidence = 0.5, riskFactors = \<lparr> bugProbability = 0 \<rparr> \<rparr>"
proof -
  have h: "length (replicate 4 samplePattern) < 5 \<and> \<not> isTrained newLinearRegressionModel"
    by (simp add: newLinearRegressionModel_def)
  note t = lr_train_short_history_untrained
      [of "replicate 4 samplePattern" newLinearRegressionModel utcCalendar 0 getDefaultMetrics
          "[samplePattern]", THEN mp, OF h]
  have e: "lr_train utcCalendar newLinearRegressionModel (replicate 4 samplePattern)
     = newLinearRegressionModel"
    using t by blast
  have p0: "lr_predict utcCalendar 0
        (lr_train utcCalendar newLinearRegressionModel (replicate 4 samplePattern)) []
        getDefaultMetrics =
       \<lparr> daily = 75, weekly = 75, confidence = 0.3, riskFactors = \<lparr> bugProbability = 20 \<rparr> \<rparr>"
    using t by blast
  have p1: "lr_predict utcCalendar 0
        (lr_train utcCalendar newLinearRegressionModel (replicate 4 samplePattern))
        [samplePattern] getDefaultMetrics =
       \<lparr> daily = jsRound (sum_list (map qualityScore [samplePattern])
                          / real (length [samplePattern])),
         weekly = jsRound (sum_list (map qualityScore [samplePattern])
                          / real (length [samplePattern])),
         confidence = 0.5,
         riskFactors = \<lparr> bugProbability =
           min 100 (sum_list (map issuesFound [samplePattern])
                      / real (length [samplePattern]) * 15) \<rparr> \<rparr>"
    using t by blast
  have v: "jsRound (sum_list (map qualityScore [samplePattern])
                          / real (length [samplePattern])) = 80"
    by (simp add: samplePattern_def jsRound_def)
  have w: "min 100 (sum_list (map issuesFound [samplePattern])
                      / real (length [samplePattern]) * 15) = 0"
    by (simp add: samplePattern_def)
  show ?thesis
    unfolding p0 p1 v w using e by simp
qed

text \<open>The claim as the specification states it fails for a history of exactly 5 samples:
  the guard of \<^verbatim>\<open>train\<close> is \<^verbatim>\<open>qualityHistory.length < 5\<close>, and the model is trained.\<close>

theorem lr_train_five_counterexample:
  "length (replicate 5 samplePattern) \<le> 5
   \<and> \<not> isTrained newLinearRegressionModel
   \<and> isTrained (lr_train utcCalendar newLinearRegressionModel (replicate 5 samplePattern))"
  by (simp add: lr_train_def newLinearRegressionModel_def Let_def)

section \<open>Properties of the analysis\<close>

lemma getRecentQuality_Nil: "qualityHistory engine = [] \<Longrightarrow> getRecentQuality now engine = []"
  by (simp add: getRecentQuality_def)

lemma generateAnalysis_overallQuality:
  "overallQuality (generateAnalysis cal now pm engine)
     = calculateQualityScore (getRecentQuality now engine)"
  by (simp add: generateAnalysis_def Let_def)

lemma generateAnalysis_bugRisk:
  "bugRisk (generateAnalysis cal now pm engine)
     = calculateBugRisk
         (riskFactors (lr_predict cal now (regressionModel engine) (getRecentQuality now engine) pm))
         (pm_complexity pm)"
  by (simp add: generateAnalysis_def Let_def)

lemma generateAnalysis_confidence:
  "ar_confidence (generateAnalysis cal now pm engine)
     = calculateConfidence (length (getRecentQuality now engine))"
  by (simp add: generateAnalysis_def Let_def)

lemma generateAnalysis_no_recent:
  assumes "getRecentQuality now engine = []"
  shows "overallQuality (generateAnalysis cal now pm engine) = 75"
    and "bugRisk (generateAnalysis cal now pm engine) = min 100 (max 0 (pm_complexity pm * 30 + 20))"
    and "ar_confidence (generateAnalysis cal now pm engine) = 0.5"
proof -
  show "overallQuality (generateAnalysis cal now pm engine) = 75"
    by (simp add: generateAnalysis_overallQuality assms calculateQualityScore_def)
  show "bugRisk (generateAnalysis cal now pm engine) = min 100 (max 0 (pm_complexity pm * 30 + 20))"
    by (simp add: generateAnalysis_bugRisk assms lr_predict_no_recent fallbackPrediction_Nil
        calculateBugRisk_def)
  show "ar_confidence (generateAnalysis cal now pm engine) = 0.5"
    by (simp add: generateAnalysis_confidence assms calculateConfidence_def)
qed

text \<open>
  Claim C6, as amended. When the quality history is empty, \<^verbatim>\<open>generateAnalysis\<close> returns
  the overall quality 75, the confidence 0.5, and as bug risk the project complexity
  times 30 plus the bug probability 20 of the fallback prediction, clamped to the
  interval from 0 to 100.
\<close>

theorem generateAnalysis_empty_history:
  "qualityHistory engine = [] \<longrightarrow>
     overallQuality (generateAnalysis cal now pm engine) = 75
     \<and> bugRisk (generateAnalysis cal now pm engine) = min 100 (max 0 (pm_complexity pm * 30 + 20))
     \<and> ar_confidence (generateAnalysis cal now pm engine) = 0.5"
  using generateAnalysis_no_recent [OF getRecentQuality_Nil] by blast

theorem generateAnalysis_empty_history_witness:
  "overallQuality (generateAnalysis utcCalendar 0 getDefaultMetrics (newAnalysisEngine freshStore)) = 75
   \<and> bugRisk (generateAnalysis utcCalendar 0 getDefaultMetrics (newAnalysisEngine freshStore)) = 35
   \<and> ar_confidence (generateAnalysis utcCalendar 0 getDefaultMetrics (newAnalysisEngine freshStore))
       = 0.5"
proof -
  have "qualityHistory (newAnalysisEngine freshStore) = []"
    by (simp add: newAnalysisEngine_def)
  then show ?thesis
    using generateAnalysis_empty_history
      [of "newAnalysisEngine freshStore" utcCalendar 0 getDefaultMetrics]
    by (simp add: getDefaultMetrics_def)
qed

text \<open>The claim as the specification states it fails on a new engine with the default
  project metrics (complexity 0.5): the bug risk is 35, and the complexity times 30 is
  15.\<close>

theorem generateAnalysis_bugRisk_counterexample:
  "qualityHistory (newAnalysisEngine freshStore) = []
   \<and> bugRisk (generateAnalysis utcCalendar 0 getDefaultMetrics (newAnalysisEngine freshStore)) = 35
   \<and> min 100 (max 0 (pm_complexity getDefaultMetrics * 30)) = (15 :: real)
   \<and> bugRisk (generateAnalysis utcCalendar 0 getDefaultMetrics (newAnalysisEngine freshStore))
       \<noteq> min 100 (max 0 (pm_complexity getDefaultMetrics * 30))"
proof -
  have h: "qualityHistory (newAnalysisEngine freshStore) = []"
    by (simp add: newAnalysisEngine_def)
  have b: "bugRisk (generateAnalysis utcCalendar 0 getDefaultMetrics (newAnalysisEngine freshStore))
             = 35"
    using generateAnalysis_no_recent(2) [OF getRecentQuality_Nil [OF h], of utcCalendar 0 getDefaultMetrics]
    by (simp add: getDefaultMetrics_def)
  have c: "min 100 (max 0 (pm_complexity getDefaultMetrics * 30)) = (15 :: real)"
    by (simp add: getDefaultMetrics_def)
  show ?thesis unfolding b c using h by simp
qed

lemma jsRound_clamped:
  "1 \<le> x \<Longrightarrow> x \<le> 10 \<Longrightarrow> jsRound x \<in> \<int> \<and> 1 \<le> jsRound x \<and> jsRound x \<le> 10"
  unfolding jsRound_def by (simp add: le_floor_iff floor_le_iff)

lemma calculateConfidence_values:
  "calculateConfidence n \<in> {0.5, 0.6, 0.8, 0.95} \<and> 0.5 \<le> calculateConfidence n"
  by (simp add: calculateConfidence_def)

lemma calculateMaintainability_range:
  "calculateMaintainability pm recent \<in> \<int>
   \<and> 1 \<le> calculateMaintainability pm recent \<and> calculateMaintainability pm recent \<le> 10"
  unfolding calculateMaintainability_def Let_def by (rule jsRound_clamped) simp_all

lemma calculatePerformance_range:
  "calculatePerformance pm recent \<in> \<int>
   \<and> 1 \<le> calculatePerformance pm recent \<and> calculatePerformance pm recent \<le> 10"
  unfolding calculatePerformance_def Let_def by (rule jsRound_clamped) simp_all

text \<open>
  Claim C10. For every engine state, clock and project metrics, the result of
  \<^verbatim>\<open>generateAnalysis\<close> has a confidence that is one of 0.5, 0.6, 0.8 and 0.95, hence at
  least 0.5 also when nothing was recorded, and its maintainability and performance
  scores are integers between 1 and 10.
\<close>

theorem generateAnalysis_confidence_and_scores:
  "ar_confidence (generateAnalysis cal now pm engine) \<in> {0.5, 0.6, 0.8, 0.95}
   \<and> 0.5 \<le> ar_confidence (generateAnalysis cal now pm engine)
   \<and> maintainabilityScore (generateAnalysis cal now pm engine) \<in> \<int>
   \<and> 1 \<le> maintainabilityScore (generateAnalysis cal now pm engine)
   \<and> maintainabilityScore (generateAnalysis cal now pm engine) \<le> 10
   \<and> performanceScore (generateAnalysis cal now pm engine) \<in> \<int>
   \<and> 1 \<le> performanceScore (generateAnalysis cal now pm engine)
   \<and> performanceScore (generateAnalysis cal now pm engine) \<le> 10"
proof -
  note c = generateAnalysis_confidence [of cal now pm engine]
  have m: "maintainabilityScore (generateAnalysis cal now pm engine)
             = calculateMaintainability pm (getRecentQuality now engine)"
    by (simp add: generateAnalysis_def Let_def)
  have p: "performanceScore (generateAnalysis cal now pm engine)
             = calculatePerformance pm (getRecentQuality now engine)"
    by (simp add: generateAnalysis_def Let_def)
  show ?thesis
    unfolding c m p
    using calculateConfidence_values [of "length (getRecentQuality now engine)"]
      calculateMaintainability_range [of pm "getRecentQuality now engine"]
      calculatePerformance_range [of pm "getRecentQuality now engine"]
    by blast
qed

theorem generateAnalysis_confidence_and_scores_witness:
  "ar_confidence (generateAnalysis utcCalendar 0 getDefaultMetrics (newAnalysisEngine freshStore))
     \<in> {0.5, 0.6, 0.8, 0.95}
   \<and> 0.5 \<le> ar_confidence (generateAnalysis utcCalendar 0 getDefaultMetrics
               (newAnalysisEngine freshStore))
   \<and> maintainabilityScore (generateAnalysis utcCalendar 0 getDefaultMetrics
         (newAnalysisEngine freshStore)) \<in> \<int>
   \<and> 1 \<le> maintainabilityScore (generateAnalysis utcCalendar 0 getDefaultMetrics
             (newAnalysisEngine freshStore))
   \<and> maintainabilityScore (generateAnalysis utcCalendar 0 getDefaultMetrics
         (newAnalysisEngine freshStore)) \<le> 10
   \<and> performanceScore (generateAnalysis utcCalendar 0 getDefaultMetrics
         (newAnalysisEngine freshStore)) \<in> \<int>
   \<and> 1 \<le> performanceScore (generateAnalysis utcCalendar 0 getDefaultMetrics
             (newAnalysisEngine freshStore))
   \<and> performanceScore (generateAnalysis utcCalendar 0 getDefaultMetrics
         (newAnalysisEngine freshStore)) \<le> 10"
  by (rule generateAnalysis_confidence_and_scores)

section \<open>Properties of the storage\<close>

lemma loadUserSettings_save:
  "loadUserSettings (store\<lparr>key_userSettings := Some (loadUserSettings store')\<rparr>)
     = loadUserSettings store'"
  by (cases "key_userSettings store'") (simp_all add: loadUserSettings_def defaultUserSettings_def)

lemma loadUserSettings_stored:
  "key_userSettings store = Some settings \<Longrightarrow> loadUserSettings store = settings"
  by (cases settings) (simp add: loadUserSettings_def defaultUserSettings_def)

lemma import_history:
  "loadQualityHistory (importAllData target data) = sliceLast 1000 (exp_qualityHistory data)"
  by (simp add: importAllData_def Let_def saveSessionData_def saveModelData_def
      saveUserSettings_def saveQualityHistory_def loadQualityHistory_def MAX_HISTORY_ENTRIES_def)

lemma import_sessions:
  "loadSessionData (importAllData target data) = sliceLast 100 (exp_sessionData data)"
  by (simp add: importAllData_def Let_def saveSessionData_def loadSessionData_def
      MAX_SESSION_ENTRIES_def)

lemma import_settings:
  "loadUserSettings (importAllData target data) = exp_userSettings data"
proof -
  have "key_userSettings (importAllData target data) = Some (exp_userSettings data)"
    by (simp add: importAllData_def Let_def saveSessionData_def saveModelData_def
        saveUserSettings_def)
  then show ?thesis by (rule loadUserSettings_stored)
qed

lemma import_model:
  "loadModelData (importAllData target data) = Some (exp_modelData data)"
  by (simp add: importAllData_def Let_def saveSessionData_def saveModelData_def loadModelData_def)

lemma export_fields:
  "exp_qualityHistory (exportAllData store) = loadQualityHistory store"
  "exp_userSettings (exportAllData store) = loadUserSettings store"
  "exp_modelData (exportAllData store) =
     (case loadModelData store of None \<Rightarrow> defaultModelData | Some m \<Rightarrow> m)"
  "exp_sessionData (exportAllData store) = loadSessionData store"
  by (simp_all add: exportAllData_def Let_def)

lemma exportAllData_alt:
  "exportAllData store =
     \<lparr> exp_qualityHistory = loadQualityHistory store,
       exp_userSettings = loadUserSettings store,
       exp_modelData = (case loadModelData store of None \<Rightarrow> defaultModelData | Some m \<Rightarrow> m),
       exp_sessionData = loadSessionData store \<rparr>"
  by (simp add: exportAllData_def Let_def)

text \<open>
  Claim C9, as amended. For every stored state with at most 1000 history entries and at
  most 100 sessions (the bounds that \<^verbatim>\<open>saveQualityHistory\<close> and \<^verbatim>\<open>saveSessionData\<close>
  keep), \<^verbatim>\<open>exportAllData\<close> followed by \<^verbatim>\<open>importAllData\<close> on a fresh store (or on any
  other) reproduces what \<^verbatim>\<open>loadQualityHistory\<close>, \<^verbatim>\<open>loadUserSettings\<close> and
  \<^verbatim>\<open>loadSessionData\<close> return, and the stored model data when there is one; a store
  without model data comes back with the default model data that the export fills in.
  A second export returns the same data as the first.
\<close>

theorem export_import_round_trip:
  "length (loadQualityHistory store) \<le> 1000 \<and> length (loadSessionData store) \<le> 100 \<longrightarrow>
     loadQualityHistory (importAllData target (exportAllData store)) = loadQualityHistory store
     \<and> loadUserSettings (importAllData target (exportAllData store)) = loadUserSettings store
     \<and> loadSessionData (importAllData target (exportAllData store)) = loadSessionData store
     \<and> loadModelData (importAllData target (exportAllData store)) =
         Some (case loadModelData store of None \<Rightarrow> defaultModelData | Some m \<Rightarrow> m)
     \<and> (loadModelData store \<noteq> None \<longrightarrow>
          loadModelData (importAllData target (exportAllData store)) = loadModelData store)
     \<and> exportAllData (importAllData target (exportAllData store)) = exportAllData store"
proof (intro impI)
  assume a: "length (loadQualityHistory store) \<le> 1000 \<and> length (loadSessionData store) \<le> 100"
  let ?s = "importAllData target (exportAllData store)"
  have h: "loadQualityHistory ?s = loadQualityHistory store"
    using a by (simp add: import_history export_fields sliceLast_id)
  have u: "loadUserSettings ?s = loadUserSettings store"
    by (simp add: import_settings export_fields)
  have d: "loadSessionData ?s = loadSessionData store"
    using a by (simp add: import_sessions export_fields sliceLast_id)
  have m: "loadModelData ?s =
         Some (case loadModelData store of None \<Rightarrow> defaultModelData | Some m \<Rightarrow> m)"
    by (simp add: import_model export_fields)
  have m': "loadModelData store \<noteq> None \<longrightarrow> loadModelData ?s = loadModelData store"
    unfolding m by (cases "loadModelData store") simp_all
  have "exportAllData ?s =
      \<lparr> exp_qualityHistory = loadQualityHistory ?s,
        exp_userSettings = loadUserSettings ?s,
        exp_modelData = (case loadModelData ?s of None \<Rightarrow> defaultModelData | Some m \<Rightarrow> m),
        exp_sessionData = loadSessionData ?s \<rparr>"
    by (rule exportAllData_alt)
  also have "\<dots> =
      \<lparr> exp_qualityHistory = loadQualityHistory store,
        exp_userSettings = loadUserSettings store,
        exp_modelData = (case loadModelData store of None \<Rightarrow> defaultModelData | Some m \<Rightarrow> m),
        exp_sessionData = loadSessionData store \<rparr>"
    by (simp only: h u d m option.case)
  also have "\<dots> = exportAllData store"
    by (rule exportAllData_alt [symmetric])
  finally have e: "exportAllData ?s = exportAllData store" .
  show "loadQualityHistory ?s = loadQualityHistory store
     \<and> loadUserSettings ?s = loadUserSettings store
     \<and> loadSessionData ?s = loadSessionData store
     \<and> loadModelData ?s =
         Some (case loadModelData store of None \<Rightarrow> defaultModelData | Some m \<Rightarrow> m)
     \<and> (loadModelData store \<noteq> None \<longrightarrow> loadModelData ?s = loadModelData store)
     \<and> exportAllData ?s = exportAllData store"
    using h u d m m' e by blast
qed

theorem export_import_round_trip_witness:
  "loadQualityHistory (importAllData freshStore (exportAllData sampleStore)) = [samplePattern]
   \<and> loadUserSettings (importAllData freshStore (exportAllData sampleStore))
       = defaultUserSettings\<lparr>qualityThreshold := 80\<rparr>
   \<and> loadModelData (importAllData freshStore (exportAllData sampleStore))
       = Some (defaultModelData\<lparr>regressionWeights := [1, 2], regressionBias := 3\<rparr>)
   \<and> loadSessionData (importAllData freshStore (exportAllData sampleStore)) = []"
proof -
  have h: "loadQualityHistory sampleStore = [samplePattern]"
    by (simp add: loadQualityHistory_def sampleStore_def)
  have d: "loadSessionData sampleStore = []"
    by (simp add: loadSessionData_def sampleStore_def)
  have u: "loadUserSettings sampleStore = defaultUserSettings\<lparr>qualityThreshold := 80\<rparr>"
    by (simp add: loadUserSettings_def sampleStore_def defaultUserSettings_def)
  have m: "loadModelData sampleStore
             = Some (defaultModelData\<lparr>regressionWeights := [1, 2], regressionBias := 3\<rparr>)"
    by (simp add: loadModelData_def sampleStore_def)
  have a: "length (loadQualityHistory sampleStore) \<le> 1000
             \<and> length (loadSessionData sampleStore) \<le> 100"
    unfolding h d by simp
  show ?thesis
    using export_import_round_trip [of sampleStore freshStore, THEN mp, OF a]
    unfolding h d u m by simp
qed

text \<open>The claim as the specification states it fails on the store of a new installation:
  \<^verbatim>\<open>loadModelData\<close> returns \<^verbatim>\<open>null\<close> on it, and the default model data after the
  round trip.\<close>

theorem export_import_model_counterexample:
  "loadModelData freshStore = None
   \<and> loadModelData (importAllData freshStore (exportAllData freshStore)) = Some defaultModelData
   \<and> loadModelData (importAllData freshStore (exportAllData freshStore))
       \<noteq> loadModelData freshStore"
  by (simp add: import_model export_fields) (simp add: loadModelData_def freshStore_def)

section \<open>Properties of the time series model\<close>

lemma analyzeSeasonality_trend:
  "trendCoefficient (analyzeSeasonality cal model h) = trendCoefficient model"
  by (simp add: analyzeSeasonality_def split: prod.splits)

lemma ts_train_trend:
  "7 \<le> length h \<Longrightarrow>
     trendCoefficient (ts_train cal model h) = trendCoefficient (analyzeTrend model h)
     \<and> isInitialized (ts_train cal model h)"
  by (simp add: ts_train_def analyzeSeasonality_trend)

lemma syntheticHistory_length: "length (syntheticHistory t0 proto) = 12"
  by (simp add: syntheticHistory_def)

lemma syntheticHistory_sums:
  "trendSums (syntheticHistory t0 proto) = (66, 900, 5340, 506)"
  by (simp add: trendSums_def syntheticHistory_def enumerate_eq_zip upt_rec [of 0] upt_rec [of "Suc _"] eval_nat_numeral)

lemma syntheticHistory_trend:
  "trendCoefficient (analyzeTrend model (syntheticHistory t0 proto)) = 30 / 11"
  by (simp add: analyzeTrend_def syntheticHistory_length syntheticHistory_sums Let_def)

text \<open>The sums in general: on a history whose scores are \<open>a + b * i\<close> at the index
  \<open>i\<close>, the least-squares slope that \<^verbatim>\<open>analyzeTrend\<close> computes is \<open>b\<close>.\<close>

lemma trendSums_snoc:
  "trendSums (h @ [q]) =
     (case trendSums h of
        (sumX, sumY, sumXY, sumXX) \<Rightarrow>
          (sumX + real (length h),
           sumY + qualityScore q,
           sumXY + real (length h) * qualityScore q,
           sumXX + real (length h) * real (length h)))"
  by (simp add: trendSums_def enumerate_append_eq split: prod.splits)

lemma trendSums_linear:
  "(\<And>i. i < length h \<Longrightarrow> qualityScore (h ! i) = a + b * real i) \<Longrightarrow>
     trendSums h =
       (real (length h) * (real (length h) - 1) / 2,
        a * real (length h) + b * (real (length h) * (real (length h) - 1) / 2),
        a * (real (length h) * (real (length h) - 1) / 2)
          + b * ((real (length h) - 1) * real (length h) * (2 * real (length h) - 1) / 6),
        (real (length h) - 1) * real (length h) * (2 * real (length h) - 1) / 6)"
proof (induction h rule: rev_induct)
  case Nil
  show ?case by (simp add: trendSums_def)
next
  case (snoc q h)
  have "\<And>i. i < length h \<Longrightarrow> qualityScore (h ! i) = a + b * real i"
  proof -
    fix i assume "i < length h"
    then show "qualityScore (h ! i) = a + b * real i"
      using snoc.prems [of i] by (simp add: nth_append)
  qed
  then have ih: "trendSums h =
       (real (length h) * (real (length h) - 1) / 2,
        a * real (length h) + b * (real (length h) * (real (length h) - 1) / 2),
        a * (real (length h) * (real (length h) - 1) / 2)
          + b * ((real (length h) - 1) * real (length h) * (2 * real (length h) - 1) / 6),
        (real (length h) - 1) * real (length h) * (2 * real (length h) - 1) / 6)"
    by (rule snoc.IH)
  have q: "qualityScore q = a + b * real (length h)"
    using snoc.prems [of "length h"] by simp
  show ?case
    unfolding trendSums_snoc ih q
    by (simp add: field_simps)
qed

lemma analyzeTrend_linear:
  assumes "2 \<le> length h"
    and "\<And>i. i < length h \<Longrightarrow> qualityScore (h ! i) = a + b * real i"
  shows "trendCoefficient (analyzeTrend model h) = b"
proof -
  define n where "n = real (length h)"
  have n2: "2 \<le> n" using assms(1) by (simp add: n_def)
  have d: "n * ((n - 1) * n * (2 * n - 1) / 6) - (n * (n - 1) / 2) * (n * (n - 1) / 2)
             = n * n * (n - 1) * (n + 1) / 12"
    by (simp add: field_simps power2_eq_square)
  have pos: "0 < n * n * (n - 1) * (n + 1) / 12"
    using n2 by simp
  have num: "n * (a * (n * (n - 1) / 2) + b * ((n - 1) * n * (2 * n - 1) / 6))
               - (n * (n - 1) / 2) * (a * n + b * (n * (n - 1) / 2))
             = b * (n * n * (n - 1) * (n + 1) / 12)"
    by (simp add: field_simps power2_eq_square)
  have "trendCoefficient (analyzeTrend model h) =
          (n * (a * (n * (n - 1) / 2) + b * ((n - 1) * n * (2 * n - 1) / 6))
               - (n * (n - 1) / 2) * (a * n + b * (n * (n - 1) / 2)))
          / (n * ((n - 1) * n * (2 * n - 1) / 6) - (n * (n - 1) / 2) * (n * (n - 1) / 2))"
  proof -
    have ts: "trendSums h =
       (n * (n - 1) / 2,
        a * n + b * (n * (n - 1) / 2),
        a * (n * (n - 1) / 2) + b * ((n - 1) * n * (2 * n - 1) / 6),
        (n - 1) * n * (2 * n - 1) / 6)"
      unfolding n_def using assms(2) by (rule trendSums_linear)
    have "\<not> length h < 2" using assms(1) by simp
    then show ?thesis
      by (simp only: analyzeTrend_def if_False Let_def ts n_def [symmetric] prod.case)
        (simp add: n_def)
  qed
  also have "\<dots> = b * (n * n * (n - 1) * (n + 1) / 12) / (n * n * (n - 1) * (n + 1) / 12)"
    unfolding num d ..
  also have "\<dots> = b"
  proof -
    have "n * n * (n - 1) * (n + 1) / 12 \<noteq> 0" using pos by linarith
    then show ?thesis by (rule nonzero_mult_div_cancel_right)
  qed
  finally show ?thesis .
qed

lemma ts_predict_linear:
  assumes "7 \<le> length h"
    and "\<And>i. i < length h \<Longrightarrow> qualityScore (h ! i) = a + b * real i"
  shows "trend (ts_predict cal now (ts_train cal model h) h) =
           (if b > 2 then improving else if b < - 2 then declining else stable)"
proof -
  have 2: "2 \<le> length h" using assms(1) by simp
  have c: "trendCoefficient (ts_train cal model h) = b"
    using ts_train_trend [OF assms(1), of cal model] analyzeTrend_linear [OF 2 assms(2)]
    by simp
  have i: "isInitialized (ts_train cal model h)"
    using ts_train_trend [OF assms(1), of cal model] by simp
  have n: "h \<noteq> []" using assms(1) by auto
  show ?thesis
    by (simp add: ts_predict_def Let_def i c n)
qed

text \<open>
  Claim C8. After \<^verbatim>\<open>train\<close> on the 12 samples whose scores rise linearly from 60 to 90,
  one a day, the trend coefficient (the least-squares slope of the score against the
  index over the whole history) is 30/11, which exceeds 2, and \<^verbatim>\<open>predict\<close> returns the
  trend label \<^verbatim>\<open>improving\<close>; this holds for every calendar, starting time and model
  trained, and whatever the other fields of the samples are.
\<close>

theorem ts_predict_linear_history_improving:
  "trendCoefficient (ts_train cal model (syntheticHistory t0 proto)) = 30 / 11
   \<and> 2 < trendCoefficient (ts_train cal model (syntheticHistory t0 proto))
   \<and> isInitialized (ts_train cal model (syntheticHistory t0 proto))
   \<and> trend (ts_predict cal now (ts_train cal model (syntheticHistory t0 proto))
               (syntheticHistory t0 proto)) = improving"
proof -
  let ?h = "syntheticHistory t0 proto"
  have l: "7 \<le> length ?h" by (simp add: syntheticHistory_length)
  have c: "trendCoefficient (ts_train cal model ?h) = 30 / 11"
    using ts_train_trend [OF l, of cal model] by (simp add: syntheticHistory_trend)
  have i: "isInitialized (ts_train cal model ?h)"
    using ts_train_trend [OF l, of cal model] by simp
  have t: "trend (ts_predict cal now (ts_train cal model ?h) ?h) = improving"
    by (simp add: ts_predict_def Let_def i c syntheticHistory_length)
  show ?thesis using c i t by simp
qed

theorem ts_predict_linear_history_improving_witness:
  "trend (ts_predict utcCalendar 0
            (ts_train utcCalendar newTimeSeriesModel (syntheticHistory 0 samplePattern))
            (syntheticHistory 0 samplePattern)) = improving"
  using ts_predict_linear_history_improving [of utcCalendar newTimeSeriesModel 0 samplePattern 0]
  by blast

section \<open>Properties of the backend analysis\<close>

lemma groupsOf_Nil: "groupsOf [] []"
  by (simp add: groupsOf_def)

lemma longTrimmed_Cons:
  "longTrimmed (l # ls) = (if 10 < length (trim l) then trim l # longTrimmed ls else longTrimmed ls)"
  by (simp add: longTrimmed_def)

lemma groupStep_short:
  "\<not> 10 < length (trim line) \<Longrightarrow> groupStep groups line index = Inr groups"
  by (simp add: groupStep_def Let_def)

lemma groupStep_new:
  "10 < length (trim line) \<Longrightarrow> map_of groups (trim line) = None \<Longrightarrow>
     groupStep groups line index =
       (if trim line \<in> set objectPrototypeKeys then Inl TypeError
        else Inr (groups @ [(trim line, [index + 1])]))"
  by (auto simp: groupStep_def Let_def)

lemma groupStep_old:
  "10 < length (trim line) \<Longrightarrow> map_of groups (trim line) = Some g \<Longrightarrow>
     groupStep groups line index =
       Inr (map (\<lambda>(k, g). if k = trim line then (k, g @ [index + 1]) else (k, g)) groups)"
  by (auto simp: groupStep_def Let_def)

lemma map_fst_update:
  "map fst (map (\<lambda>(k, g). if k = t then (k, f g) else (k, g)) groups) = map fst groups"
  by (induction groups) auto

lemma counts_snoc_other:
  "t \<notin> set (map fst groups) \<Longrightarrow> list_all (\<lambda>(k, g). length g = count_list ts k) groups \<Longrightarrow>
     list_all (\<lambda>(k, g). length g = count_list (ts @ [t]) k) groups"
  by (induction groups) auto

lemma counts_snoc_update:
  "list_all (\<lambda>(k, g). length g = count_list ts k) groups \<Longrightarrow>
     list_all (\<lambda>(k, g). length g = count_list (ts @ [t]) k)
       (map (\<lambda>(k, g). if k = t then (k, g @ [i]) else (k, g)) groups)"
  by (induction groups) (auto split: if_splits)

lemma count_pos: "k \<in> set ts \<Longrightarrow> 1 \<le> count_list ts k"
  using count_list_0_iff [of ts k] by (cases "count_list ts k") simp_all

lemma counts_map:
  "list_all (\<lambda>(k, g). length g = count_list ts k) groups \<Longrightarrow>
     map (\<lambda>grp. length grp - 1) (map snd groups) = map (\<lambda>k. count_list ts k - 1) (map fst groups)"
  by (induction groups) auto

lemma groupStep_groupsOf:
  assumes "groupsOf groups ts" and "groupStep groups line index = Inr groups'"
  shows "groupsOf groups' (ts @ longTrimmed [line])"
proof (cases "10 < length (trim line)")
  case False
  then show ?thesis
    using assms by (simp add: groupStep_short longTrimmed_def)
next
  case long: True
  let ?t = "trim line"
  have lt: "longTrimmed [line] = [?t]" using long by (simp add: longTrimmed_def)
  show ?thesis
  proof (cases "map_of groups ?t")
    case None
    then have notin: "?t \<notin> set (map fst groups)"
      by (simp add: map_of_eq_None_iff)
    then have c0: "count_list ts ?t = 0"
      using assms(1) by (simp add: groupsOf_def count_list_0_iff)
    from assms(2) long None have g': "groups' = groups @ [(?t, [index + 1])]"
      by (simp add: groupStep_new split: if_splits)
    have "list_all (\<lambda>(k, g). length g = count_list (ts @ [?t]) k) groups"
    proof (rule counts_snoc_other)
      show "?t \<notin> set (map fst groups)" by (rule notin)
      show "list_all (\<lambda>(k, g). length g = count_list ts k) groups"
        using assms(1) by (simp add: groupsOf_def)
    qed
    then show ?thesis
      using assms(1) notin c0 unfolding g' lt groupsOf_def by simp
  next
    case (Some g)
    then have "map_of groups ?t \<noteq> None" by simp
    then have "?t \<in> set (map fst groups)"
      by (simp add: map_of_eq_None_iff)
    from assms(2) long Some have g': "groups' =
        map (\<lambda>(k, g). if k = ?t then (k, g @ [index + 1]) else (k, g)) groups"
      by (simp add: groupStep_old)
    have "list_all (\<lambda>(k, g). length g = count_list (ts @ [?t]) k) groups'"
      unfolding g'
    proof (rule counts_snoc_update)
      show "list_all (\<lambda>(k, g). length g = count_list ts k) groups"
        using assms(1) by (simp add: groupsOf_def)
    qed
    moreover have "map fst groups' = map fst groups"
      unfolding g' by (rule map_fst_update)
    moreover have "insert ?t (set ts) = set ts"
      using assms(1) \<open>?t \<in> set (map fst groups)\<close> by (auto simp: groupsOf_def)
    ultimately show ?thesis
      using assms(1) unfolding lt groupsOf_def by simp
  qed
qed

lemma longTrimmed_append: "longTrimmed (xs @ ys) = longTrimmed xs @ longTrimmed ys"
  by (simp add: longTrimmed_def)

lemma collectGroups_groupsOf:
  "groupsOf groups ts \<Longrightarrow> collectGroups groups (enumerate n lines) = Inr groups' \<Longrightarrow>
     groupsOf groups' (ts @ longTrimmed lines)"
proof (induction lines arbitrary: groups ts n)
  case Nil
  then show ?case by (simp add: longTrimmed_def)
next
  case (Cons l ls)
  from Cons.prems(2) obtain g1 where s: "groupStep groups l n = Inr g1"
    and r: "collectGroups g1 (enumerate (Suc n) ls) = Inr groups'"
    by (auto split: sum.splits)
  have "groupsOf g1 (ts @ longTrimmed [l])"
    using Cons.prems(1) s by (rule groupStep_groupsOf)
  from Cons.IH [OF this r] show ?case
    using longTrimmed_append [of "[l]" ls] by simp
qed

lemma collectGroups_total:
  "set (longTrimmed lines) \<inter> set objectPrototypeKeys = {} \<Longrightarrow>
     \<exists>groups'. collectGroups groups (enumerate n lines) = Inr groups'"
proof (induction lines arbitrary: groups n)
  case Nil
  then show ?case by simp
next
  case (Cons l ls)
  have "\<exists>g1. groupStep groups l n = Inr g1"
  proof (cases "10 < length (trim l)")
    case False
    then show ?thesis by (simp add: groupStep_short)
  next
    case True
    with Cons.prems have "trim l \<notin> set objectPrototypeKeys"
      by (auto simp: longTrimmed_Cons)
    with True show ?thesis
      by (cases "map_of groups (trim l)") (simp_all add: groupStep_new groupStep_old)
  qed
  then obtain g1 where s: "groupStep groups l n = Inr g1" ..
  have "set (longTrimmed ls) \<inter> set objectPrototypeKeys = {}"
    using Cons.prems by (auto simp: longTrimmed_Cons split: if_splits)
  from Cons.IH [OF this, of g1 "Suc n"] show ?case
    by (simp add: s)
qed

lemma duplicate_fold:
  "foldl (\<lambda>total grp. total + length grp - 1) a (filter (\<lambda>grp. length grp > 1) gs)
     = a + sum_list (map (\<lambda>grp. length grp - 1) gs)" for a :: nat
  by (induction gs arbitrary: a) auto

lemma groupsOf_sum:
  assumes "groupsOf groups ts"
  shows "sum_list (map (\<lambda>grp. length grp - 1) (map snd groups)) = length ts - card (set ts)"
proof -
  have "map (\<lambda>grp. length grp - 1) (map snd groups)
          = map (\<lambda>k. count_list ts k - 1) (map fst groups)"
    using assms by (simp only: groupsOf_def counts_map)
  then have "sum_list (map (\<lambda>grp. length grp - 1) (map snd groups))
          = sum_list (map (\<lambda>k. count_list ts k - 1) (map fst groups))"
    by (rule arg_cong)
  also have "\<dots> = sum (\<lambda>k. count_list ts k - 1) (set (map fst groups))"
    using assms by (simp only: groupsOf_def sum_list_distinct_conv_sum_set)
  also have "\<dots> = sum (\<lambda>k. count_list ts k - 1) (set ts)"
    using assms by (simp only: groupsOf_def)
  also have "\<dots> = sum (count_list ts) (set ts) - card (set ts)"
  proof -
    have "\<And>k. k \<in> set ts \<Longrightarrow> 1 \<le> count_list ts k"
      by (rule count_pos)
    then have "sum (\<lambda>k. count_list ts k - 1) (set ts)
        = sum (count_list ts) (set ts) - sum (\<lambda>k. 1) (set ts)"
      by (intro sum_subtractf_nat) simp
    then show ?thesis by simp
  qed
  also have "\<dots> = length ts - card (set ts)"
    by (simp add: sum_count_set)
  finally show ?thesis .
qed

lemma repeated_le:
  "card {t. t \<in> set ts \<and> 2 \<le> count_list ts t} \<le> length ts - card (set ts)"
proof -
  let ?S = "{t. t \<in> set ts \<and> 2 \<le> count_list ts t}"
  have one: "\<And>k. k \<in> set ts \<Longrightarrow> 1 \<le> count_list ts k"
    by (rule count_pos)
  have "card ?S = sum (\<lambda>k. 1) ?S" by simp
  also have "\<dots> \<le> sum (\<lambda>k. count_list ts k - 1) ?S"
    by (rule sum_mono) auto
  also have "\<dots> \<le> sum (\<lambda>k. count_list ts k - 1) (set ts)"
    by (rule sum_mono2) auto
  also have "\<dots> = sum (count_list ts) (set ts) - sum (\<lambda>k. 1) (set ts)"
    using one by (intro sum_subtractf_nat) simp
  also have "\<dots> = length ts - card (set ts)"
    by (simp add: sum_count_set)
  finally show ?thesis .
qed

lemma backend_complexity_fold:
  "foldl (\<lambda>complexity pattern.
            complexity + (case match pattern code of None \<Rightarrow> 0 | Some ms \<Rightarrow> length ms)) n ps
     = n + sum_list (map (\<lambda>p. matchCount match p code) ps)"
  by (induction ps arbitrary: n) (simp_all add: matchCount_def)

lemma analyzeCode_Inl:
  "collectGroups [] (enumerate 0 (jsSplit newline code)) = Inl e \<Longrightarrow> analyzeCode match code = Inl e"
  by (simp add: analyzeCode_def Let_def)

lemma analyzeCode_Inr_score:
  "collectGroups [] (enumerate 0 (jsSplit newline code)) = Inr groups \<Longrightarrow>
     \<exists>r. analyzeCode match code = Inr r
       \<and> ba_qualityScore r =
           max 0 (min 100
             (100 - (real (sum_list (map (\<lambda>p. matchCount match p code) backendComplexityPatterns)) * 8)
                  - (real (foldl (\<lambda>total grp. total + length grp - 1) (0 :: nat)
                            (filter (\<lambda>grp. length grp > 1) (map snd groups))) * 3)
                  - (real (matchCount match RE_long_function code) * 12)))
       \<and> bm_duplicateLines (ba_metrics r) =
           foldl (\<lambda>total grp. total + length grp - 1) (0 :: nat)
             (filter (\<lambda>grp. length grp > 1) (map snd groups))"
  by (simp add: analyzeCode_def Let_def backend_complexity_fold matchCount_def)

lemma analyzeCode_result:
  assumes "analyzeCode match code = Inr r"
  shows "ba_qualityScore r =
           max 0 (min 100
             (100 - (real (sum_list (map (\<lambda>p. matchCount match p code) backendComplexityPatterns)) * 8)
                  - (real (length (longTrimmed (jsSplit newline code))
                            - card (set (longTrimmed (jsSplit newline code)))) * 3)
                  - (real (matchCount match RE_long_function code) * 12)))"
    and "bm_duplicateLines (ba_metrics r) =
           length (longTrimmed (jsSplit newline code)) - card (set (longTrimmed (jsSplit newline code)))"
proof -
  obtain groups where g: "collectGroups [] (enumerate 0 (jsSplit newline code)) = Inr groups"
  proof (cases "collectGroups [] (enumerate 0 (jsSplit newline code))")
    case (Inl e)
    then have "analyzeCode match code = Inl e" by (rule analyzeCode_Inl)
    with assms show ?thesis by simp
  next
    case (Inr groups)
    then show ?thesis by (rule that)
  qed
  have "groupsOf groups ([] @ longTrimmed (jsSplit newline code))"
    using groupsOf_Nil g by (rule collectGroups_groupsOf)
  then have "sum_list (map (\<lambda>grp. length grp - 1) (map snd groups)) =
           length (longTrimmed (jsSplit newline code)) - card (set (longTrimmed (jsSplit newline code)))"
    using groupsOf_sum [of groups "longTrimmed (jsSplit newline code)"] by simp
  then have s: "foldl (\<lambda>total grp. total + length grp - 1) (0 :: nat)
             (filter (\<lambda>grp. length grp > 1) (map snd groups)) =
           length (longTrimmed (jsSplit newline code)) - card (set (longTrimmed (jsSplit newline code)))"
    by (simp only: duplicate_fold add_0)
  from analyzeCode_Inr_score [OF g, of match] assms
  show "ba_qualityScore r =
           max 0 (min 100
             (100 - (real (sum_list (map (\<lambda>p. matchCount match p code) backendComplexityPatterns)) * 8)
                  - (real (length (longTrimmed (jsSplit newline code))
                            - card (set (longTrimmed (jsSplit newline code)))) * 3)
                  - (real (matchCount match RE_long_function code) * 12)))"
    and "bm_duplicateLines (ba_metrics r) =
           length (longTrimmed (jsSplit newline code)) - card (set (longTrimmed (jsSplit newline code)))"
    unfolding s by auto
qed

lemma analyzeCode_total:
  assumes "set (longTrimmed (jsSplit newline code)) \<inter> set objectPrototypeKeys = {}"
  shows "\<exists>r. analyzeCode match code = Inr r"
proof -
  from collectGroups_total [OF assms, of "[]" 0]
  obtain groups where "collectGroups [] (enumerate 0 (jsSplit newline code)) = Inr groups" ..
  from analyzeCode_Inr_score [OF this, of match] show ?thesis by blast
qed

lemma count_longTrimmed:
  "10 < length t \<Longrightarrow> count_list (longTrimmed lines) t = count_list (map trim lines) t"
  by (induction lines) (auto simp: longTrimmed_def)

lemma longTrimmed_long: "t \<in> set (longTrimmed lines) \<Longrightarrow> 10 < length t"
  by (simp add: longTrimmed_def)

lemma repeated_sets:
  "{t. 10 < length t \<and> 2 \<le> count_list (map trim lines) t}
     = {t. t \<in> set (longTrimmed lines) \<and> 2 \<le> count_list (longTrimmed lines) t}"
proof (intro set_eqI iffI)
  fix t assume "t \<in> {t. 10 < length t \<and> 2 \<le> count_list (map trim lines) t}"
  then have l: "10 < length t" and c: "2 \<le> count_list (longTrimmed lines) t"
    by (simp_all add: count_longTrimmed)
  from c have "count_list (longTrimmed lines) t \<noteq> 0" by simp
  then have "t \<in> set (longTrimmed lines)" by (simp only: count_list_0_iff) simp
  with c show "t \<in> {t. t \<in> set (longTrimmed lines) \<and> 2 \<le> count_list (longTrimmed lines) t}"
    by simp
next
  fix t assume a: "t \<in> {t. t \<in> set (longTrimmed lines) \<and> 2 \<le> count_list (longTrimmed lines) t}"
  then have "10 < length t" using longTrimmed_long [of t lines] by simp
  with a show "t \<in> {t. 10 < length t \<and> 2 \<le> count_list (map trim lines) t}"
    by (simp add: count_longTrimmed)
qed

lemma findDuplicateLines_repeated:
  "findDuplicateLines lines =
     card {t. t \<in> set (longTrimmed lines) \<and> 2 \<le> count_list (longTrimmed lines) t}"
  by (simp only: findDuplicateLines_card repeated_sets)

lemma findDuplicateLines_le_backend:
  "findDuplicateLines lines \<le> length (longTrimmed lines) - card (set (longTrimmed lines))"
  by (simp only: findDuplicateLines_repeated repeated_le)

lemma groupStep_keys:
  assumes "groupStep groups line index = Inr groups'"
    and "set (map fst groups) \<inter> set objectPrototypeKeys = {}"
  shows "set (map fst groups') \<inter> set objectPrototypeKeys = {}"
proof (cases "10 < length (trim line)")
  case False
  with assms show ?thesis by (simp add: groupStep_short)
next
  case True
  show ?thesis
  proof (cases "map_of groups (trim line)")
    case None
    with assms(1) True have n: "trim line \<notin> set objectPrototypeKeys"
      and g': "groups' = groups @ [(trim line, [index + 1])]"
      by (simp_all add: groupStep_new split: if_splits)
    have "set (map fst groups') = insert (trim line) (set (map fst groups))"
      unfolding g' by simp
    then show ?thesis using assms(2) n by simp
  next
    case (Some g)
    with assms(1) True have "map fst groups' = map fst groups"
      by (auto simp: groupStep_old map_fst_update)
    with assms(2) show ?thesis by simp
  qed
qed

lemma collectGroups_TypeError:
  "set (longTrimmed lines) \<inter> set objectPrototypeKeys \<noteq> {} \<Longrightarrow>
   set (map fst groups) \<inter> set objectPrototypeKeys = {} \<Longrightarrow>
     collectGroups groups (enumerate n lines) = Inl TypeError"
proof (induction lines arbitrary: groups n)
  case Nil
  then show ?case by (simp add: longTrimmed_def)
next
  case (Cons l ls)
  show ?case
  proof (cases "groupStep groups l n")
    case (Inl e)
    then show ?thesis by (cases e) simp
  next
    case (Inr g1)
    have k: "set (map fst g1) \<inter> set objectPrototypeKeys = {}"
      using Inr Cons.prems(2) by (rule groupStep_keys)
    have "\<not> (10 < length (trim l) \<and> trim l \<in> set objectPrototypeKeys)"
    proof
      assume a: "10 < length (trim l) \<and> trim l \<in> set objectPrototypeKeys"
      with Cons.prems(2) have "trim l \<notin> set (map fst groups)" by auto
      then have "map_of groups (trim l) = None" by (simp add: map_of_eq_None_iff)
      with a have "groupStep groups l n = Inl TypeError" by (simp add: groupStep_new)
      with Inr show False by simp
    qed
    with Cons.prems(1) have "set (longTrimmed ls) \<inter> set objectPrototypeKeys \<noteq> {}"
      by (auto simp: longTrimmed_Cons split: if_splits)
    from Cons.IH [OF this k, of "Suc n"] show ?thesis
      by (simp add: Inr)
  qed
qed

lemma analyzeCode_TypeError_iff:
  "analyzeCode match code = Inl TypeError \<longleftrightarrow>
     set (longTrimmed (jsSplit newline code)) \<inter> set objectPrototypeKeys \<noteq> {}"
proof
  assume a: "analyzeCode match code = Inl TypeError"
  show "set (longTrimmed (jsSplit newline code)) \<inter> set objectPrototypeKeys \<noteq> {}"
  proof
    assume "set (longTrimmed (jsSplit newline code)) \<inter> set objectPrototypeKeys = {}"
    then have "\<exists>r. analyzeCode match code = Inr r" by (rule analyzeCode_total)
    with a show False by auto
  qed
next
  assume "set (longTrimmed (jsSplit newline code)) \<inter> set objectPrototypeKeys \<noteq> {}"
  then have "collectGroups [] (enumerate 0 (jsSplit newline code)) = Inl TypeError"
    by (rule collectGroups_TypeError) simp
  then show "analyzeCode match code = Inl TypeError" by (rule analyzeCode_Inl)
qed

lemma analyzeCode_hasOwnProperty: "analyzeCode match ''  hasOwnProperty'' = Inl TypeError"
proof -
  have "longTrimmed (jsSplit newline ''  hasOwnProperty'') = [''hasOwnProperty'']"
    by (simp add: longTrimmed_def trim_def isWhiteSpace_def newline_def)
  then show ?thesis
    by (simp add: analyzeCode_TypeError_iff objectPrototypeKeys_def)
qed

text \<open>
  Claim C7, as amended. The backend's \<^verbatim>\<open>analyzeCode\<close> computes a heuristic of the same
  form as the extension's \<^verbatim>\<open>analyzeCodeQuality\<close>, with weights and metrics of its own.
  Its score is 100 minus 8 times its complexity, 3 times its duplicate lines and 12 times
  its long functions, clamped to the interval from 0 to 100, where the complexity is the
  plain number of matches of its seven keyword patterns, the duplicate lines are the long
  trimmed lines minus the distinct ones (every repeat counts), and the long functions
  are the matches of its own pattern. The extension's score is 100 minus 10 times its
  complexity (a tenth of one plus the matches of its six patterns, at most 10), 5 times
  the number of distinct long trimmed lines that repeat, and 15 times its long functions,
  clamped alike. Both scores lie between 0 and 100, and the extension's duplicate count
  is at most the backend's. \<^verbatim>\<open>analyzeCode\<close> returns a result whenever no long trimmed
  line is the name of a property of \<^verbatim>\<open>Object.prototype\<close>.
\<close>

theorem analyzeCode_own_weights_and_metrics:
  "(set (longTrimmed (jsSplit newline text)) \<inter> set objectPrototypeKeys = {}
      \<longrightarrow> (\<exists>r. analyzeCode match text = Inr r))
   \<and> (analyzeCode match text = Inr r \<longrightarrow>
        ba_qualityScore r =
          max 0 (min 100
            (100 - (real (sum_list (map (\<lambda>p. matchCount match p text) backendComplexityPatterns)) * 8)
                 - (real (length (longTrimmed (jsSplit newline text))
                           - card (set (longTrimmed (jsSplit newline text)))) * 3)
                 - (real (matchCount match RE_long_function text) * 12)))
        \<and> 0 \<le> ba_qualityScore r \<and> ba_qualityScore r \<le> 100
        \<and> findDuplicateLines (jsSplit newline text) \<le> bm_duplicateLines (ba_metrics r))
   \<and> fa_qualityScore (analyzeCodeQuality match text fileName) =
        max 0 (min 100
          (100 - (min 10 (real (1 + sum_list (map (\<lambda>p. matchCount match p text) complexityPatterns))
                            / 10) * 10)
               - (real (card {t. t \<in> set (longTrimmed (jsSplit newline text))
                                 \<and> 2 \<le> count_list (longTrimmed (jsSplit newline text)) t}) * 5)
               - (real (findLongFunctions match text
                          (toLowerCase (last (jsSplit (CHR ''.'') fileName)))) * 15)))
   \<and> 0 \<le> fa_qualityScore (analyzeCodeQuality match text fileName)
   \<and> fa_qualityScore (analyzeCodeQuality match text fileName) \<le> 100"
proof (intro conjI impI)
  assume "set (longTrimmed (jsSplit newline text)) \<inter> set objectPrototypeKeys = {}"
  then show "\<exists>r. analyzeCode match text = Inr r" by (rule analyzeCode_total)
next
  assume a: "analyzeCode match text = Inr r"
  show s: "ba_qualityScore r =
          max 0 (min 100
            (100 - (real (sum_list (map (\<lambda>p. matchCount match p text) backendComplexityPatterns)) * 8)
                 - (real (length (longTrimmed (jsSplit newline text))
                           - card (set (longTrimmed (jsSplit newline text)))) * 3)
                 - (real (matchCount match RE_long_function text) * 12)))"
    using a by (rule analyzeCode_result(1))
  show "0 \<le> ba_qualityScore r" unfolding s by simp
  show "ba_qualityScore r \<le> 100" unfolding s by simp
  show "findDuplicateLines (jsSplit newline text) \<le> bm_duplicateLines (ba_metrics r)"
    unfolding analyzeCode_result(2) [OF a] by (rule findDuplicateLines_le_backend)
next
  show e: "fa_qualityScore (analyzeCodeQuality match text fileName) =
        max 0 (min 100
          (100 - (min 10 (real (1 + sum_list (map (\<lambda>p. matchCount match p text) complexityPatterns))
                            / 10) * 10)
               - (real (card {t. t \<in> set (longTrimmed (jsSplit newline text))
                                 \<and> 2 \<le> count_list (longTrimmed (jsSplit newline text)) t}) * 5)
               - (real (findLongFunctions match text
                          (toLowerCase (last (jsSplit (CHR ''.'') fileName)))) * 15)))"
    by (simp only: analyzeCodeQuality_score rawQualityScore_def calculateComplexity_eq
        findDuplicateLines_repeated)
  show "0 \<le> fa_qualityScore (analyzeCodeQuality match text fileName)" unfolding e by simp
  show "fa_qualityScore (analyzeCodeQuality match text fileName) \<le> 100" unfolding e by simp
qed

lemma longTrimmed_x: "longTrimmed (jsSplit newline ''x'') = []"
  by (simp add: longTrimmed_def trim_def isWhiteSpace_def newline_def)

lemma collect_x: "collectGroups [] (enumerate 0 (jsSplit newline ''x'')) = Inr []"
  by (simp add: groupStep_def trim_def isWhiteSpace_def newline_def)

lemma dup_x: "findDuplicateLines (jsSplit newline ''x'') = 0"
  by (simp add: findDuplicateLines_def duplicateStep_def trim_def isWhiteSpace_def newline_def)

lemma complexity_x: "sum_list (map (\<lambda>p. matchCount noMatch p ''x'') complexityPatterns) = 0"
  by (simp add: matchCount_def noMatch_def)

lemma longFunctions_x:
  "findLongFunctions noMatch ''x'' (toLowerCase (last (jsSplit (CHR ''.'') ''index.js''))) = 0"
  by (simp add: findLongFunctions_def noMatch_def split: option.splits)

theorem analyzeCode_own_weights_and_metrics_witness:
  "(\<exists>r. analyzeCode noMatch ''x'' = Inr r)
   \<and> fa_qualityScore (analyzeCodeQuality noMatch ''x'' ''index.js'') = 99"
proof -
  note t = analyzeCode_own_weights_and_metrics [of "''x''" noMatch undefined "''index.js''"]
  have h: "set (longTrimmed (jsSplit newline ''x'')) \<inter> set objectPrototypeKeys = {}"
    by (simp only: longTrimmed_x) simp
  from t h have 1: "\<exists>r. analyzeCode noMatch ''x'' = Inr r" by blast
  from t have "fa_qualityScore (analyzeCodeQuality noMatch ''x'' ''index.js'') =
        max 0 (min 100
          (100 - (min 10 (real (1 + sum_list (map (\<lambda>p. matchCount noMatch p ''x'') complexityPatterns))
                            / 10) * 10)
               - (real (card {t. t \<in> set (longTrimmed (jsSplit newline ''x''))
                                 \<and> 2 \<le> count_list (longTrimmed (jsSplit newline ''x'')) t}) * 5)
               - (real (findLongFunctions noMatch ''x''
                          (toLowerCase (last (jsSplit (CHR ''.'') ''index.js'')))) * 15)))"
    by blast
  then have 2: "fa_qualityScore (analyzeCodeQuality noMatch ''x'' ''index.js'') = 99"
    unfolding complexity_x longFunctions_x longTrimmed_x by simp
  show ?thesis using 1 2 by simp
qed

text \<open>The claim as the specification states it fails on the text that consists of the
  letter x, in which no pattern occurs: the extension's score is 99 (its complexity has
  the base 1), the backend's is 100.\<close>

theorem analyzeCode_score_counterexample:
  "fa_qualityScore (analyzeCodeQuality noMatch ''x'' ''index.js'') = 99
   \<and> (case analyzeCode noMatch ''x'' of
         Inl e \<Rightarrow> False
       | Inr r \<Rightarrow> ba_qualityScore r = 100
           \<and> ba_qualityScore r \<noteq> fa_qualityScore (analyzeCodeQuality noMatch ''x'' ''index.js''))"
proof -
  have x: "fa_qualityScore (analyzeCodeQuality noMatch ''x'' ''index.js'') = 99"
    by (simp only: analyzeCodeQuality_score calculateComplexity_eq complexity_x longFunctions_x
        dup_x) (simp add: rawQualityScore_def)
  have b: "sum_list (map (\<lambda>p. matchCount noMatch p ''x'') backendComplexityPatterns) = 0"
    by (simp add: matchCount_def noMatch_def)
  have m: "matchCount noMatch RE_long_function ''x'' = 0"
    by (simp add: matchCount_def noMatch_def)
  from analyzeCode_Inr_score [OF collect_x, of noMatch]
  obtain r where r: "analyzeCode noMatch ''x'' = Inr r"
    and q: "ba_qualityScore r =
           max 0 (min 100
             (100 - (real (sum_list (map (\<lambda>p. matchCount noMatch p ''x'') backendComplexityPatterns)) * 8)
                  - (real (foldl (\<lambda>total grp. total + length grp - 1) (0 :: nat)
                            (filter (\<lambda>grp. length grp > 1) (map snd ([] :: lineGroups)))) * 3)
                  - (real (matchCount noMatch RE_long_function ''x'') * 12)))"
    by blast
  have q': "ba_qualityScore r = 100"
    unfolding q b m by simp
  show ?thesis unfolding x r using q' by simp
qed


end
